theory Spec2Isabelle
  imports Main "HOL-Library.Word"
begin

unbundle bit_operations_syntax

section \<open>The ADC driver (src/drivers/adc/ADC.cpp): data model\<close>

text \<open>
  The driver samples a fixed set of analog channels on a timer and publishes the readings
  as one \<open>adc_report\<close> per cycle. The embedding follows ADC.cpp function by function.
  Fixed-width unsigned values whose bits matter (the channel mask, raw readings, the
  device id) are machine words. Channel indices and counts are natural numbers: every one
  of them is bounded by \<open>ADC_TOTAL_CHANNELS\<close>, so no arithmetic on them can wrap.
  A \<open>float\<close> is only ever copied, so it is carried as its 32-bit pattern.
\<close>

type_synonym uint32 = "32 word"
type_synonym uint64 = "64 word"
type_synonym float32 = "32 word"

text \<open>One slot of the sample array \<open>_samples\<close>: the channel number and its last reading.\<close>

record px4_adc_msg_t =
  am_channel :: nat
  am_data :: uint32

text \<open>
  Modelled from the spec: the declaration of the published message is generated from the
  message definition, which is not part of ADC.cpp. The spec gives it a device id, the
  reference voltage, the resolution, a timestamp and two arrays of the fixed length
  \<open>MAX_SUPPORTED_CHANNELS\<close>: signed channel ids (-1 marks an unused slot) and unsigned
  raw values. The arrays are lists here, whose length is that capacity.
\<close>

record adc_report_s =
  timestamp :: uint64
  device_id :: uint32
  channel_id :: "int list"
  raw_data :: "uint32 list"
  resolution :: uint32
  v_ref :: float32

text \<open>
  Compile-time constants of the board and of the module framework. ADC.cpp uses them but
  does not define them, so every function of the model takes them as a parameter; the
  always-on mask that \<open>px4_arch_adc_temp_sensor_mask()\<close> returns is one of them.
  The capacity of the report arrays, \<open>sizeof(adc.channel_id) / sizeof(adc.channel_id[0])\<close>
  in \<open>Run\<close>, is \<open>PX4_MAX_ADC_CHANNELS\<close>, the one length the spec gives both arrays.
\<close>

record board =
  ADC_TOTAL_CHANNELS :: nat
  PX4_MAX_ADC_CHANNELS :: nat
  px4_arch_adc_temp_sensor_mask :: uint32
  kINTERVAL :: nat
  BUILTIN_ADC_DEVID :: uint32
  SYSTEM_ADC_BASE :: uint32
  ADC_CHANNELS :: uint32
  task_id_is_work_queue :: int

text \<open>
  What the driver does to its collaborators, in order: log lines, hardware calls, sleeps
  and published reports.
\<close>

datatype event =
    PX4_ERR string
  | PX4_ERR_too_small nat nat
  | PX4_WARN string
  | INFO_device_id uint32
  | INFO_resolution uint32
  | INFO_v_ref float32
  | INFO_channel int uint32
  | INFO_newline
  | INFO_test_failed
  | INFO_test_successful
  | PRINT_MODULE_DESCRIPTION
  | PRINT_MODULE_USAGE_NAME string string
  | PRINT_MODULE_USAGE_COMMAND string
  | PRINT_MODULE_USAGE_DEFAULT_COMMANDS
  | Usleep nat
  | ArchInit uint32
  | ArchUninit uint32
  | ArchSample uint32 nat
  | ScheduleClear
  | PerfBegin
  | PerfEnd
  | PerfFree
  | Publish adc_report_s

text \<open>
  What the collaborators answer during one call: the two allocations (\<open>None\<close> is a null
  pointer; the sample array comes back with arbitrary contents \<open>junk\<close>), the hardware
  functions, the clock, and the results of the successive polls of the self-test's
  subscription.
\<close>

record env =
  new_ADC :: "nat option"
  new_samples :: "(nat \<Rightarrow> px4_adc_msg_t) option"
  px4_arch_adc_init :: "uint32 \<Rightarrow> int"
  px4_arch_adc_sample :: "uint32 \<Rightarrow> nat \<Rightarrow> uint32"
  px4_arch_adc_reference_v :: float32
  px4_arch_adc_dn_fullcount :: uint32
  hrt_absolute_time :: uint64
  update :: "nat \<Rightarrow> adc_report_s option"

text \<open>
  An \<open>ADC\<close> object: its fields (\<open>_channel_count\<close> starts at 0 and \<open>_samples\<close> as a
  null pointer), the registration of its work item with the scheduler
  (\<open>ScheduleOnInterval\<close> stores the interval and the delay, \<open>ScheduleClear\<close> removes
  them) and the flag that \<open>should_exit()\<close> reads, which the spec calls a requested
  shutdown.
\<close>

record ADC =
  base_address :: uint32
  channel_count :: nat
  samples :: "px4_adc_msg_t list option"
  schedule :: "(nat \<times> nat) option"
  task_should_exit :: bool

text \<open>
  The module's static state, the live \<open>ADC\<close> objects by address, and everything the
  driver has done so far. A function that dereferences a null or dangling pointer, or
  indexes past the end of an array, returns \<open>None\<close>.
\<close>

record module =
  heap :: "nat \<rightharpoonup> ADC"
  object :: "nat option"
  task_id :: int
  trace :: "event list"

text \<open>
  Modelled from the spec: the result codes are defined outside ADC.cpp. Success is 0 and
  an error is not; the error code is -1.
\<close>

definition PX4_OK :: int where
  "PX4_OK = 0"

definition PX4_ERROR :: int where
  "PX4_ERROR = - 1"

text \<open>The all-ones word, which the hardware returns when a conversion times out.\<close>

definition UINT32_MAX :: uint32 where
  "UINT32_MAX = - 1"

section \<open>The constructor\<close>

text \<open>\<open>channels & (1 << i)\<close>; the shift is defined in C++ for \<open>i < 32\<close> only.\<close>

definition channel_enabled :: "uint32 \<Rightarrow> nat \<Rightarrow> bool" where
  "channel_enabled channels i \<longleftrightarrow> channels AND push_bit i 1 \<noteq> 0"

text \<open>The first loop: \<open>_channel_count\<close> starts at 0 and counts the enabled channels.\<close>

definition count_channels :: "nat \<Rightarrow> uint32 \<Rightarrow> nat" where
  "count_channels tot channels =
     fold (\<lambda>i n. if channel_enabled channels i then Suc n else n) [0..<tot] 0"

text \<open>The second loop: one step writes slot \<open>index\<close> and advances it.\<close>

definition prefill_step ::
  "uint32 \<Rightarrow> nat \<Rightarrow> (px4_adc_msg_t list \<times> nat) option \<Rightarrow> (px4_adc_msg_t list \<times> nat) option" where
  "prefill_step channels i st =
     (case st of
        None \<Rightarrow> None
      | Some (xs, index) \<Rightarrow>
          if channel_enabled channels i then
            (if index < length xs
             then Some (xs[index := (xs ! index)\<lparr>am_channel := i, am_data := 0\<rparr>], Suc index)
             else None)
          else Some (xs, index))"

definition prefill :: "nat \<Rightarrow> uint32 \<Rightarrow> px4_adc_msg_t list \<Rightarrow> px4_adc_msg_t list option" where
  "prefill tot channels arr =
     map_option fst (fold (prefill_step channels) [0..<tot] (Some (arr, 0)))"

definition ADC_ctor :: "board \<Rightarrow> env \<Rightarrow> uint32 \<Rightarrow> uint32 \<Rightarrow> (ADC \<times> event list) option" where
  "ADC_ctor b e base requested =
     (let channels = requested OR px4_arch_adc_temp_sensor_mask b;
          n = count_channels (ADC_TOTAL_CHANNELS b) channels;
          log = (if n > PX4_MAX_ADC_CHANNELS b
                 then [PX4_ERR_too_small (PX4_MAX_ADC_CHANNELS b) n] else []);
          this = \<lparr>base_address = base, channel_count = n, samples = None,
                  schedule = None, task_should_exit = False\<rparr>
      in case new_samples e of
           None \<Rightarrow> Some (this, log)
         | Some junk \<Rightarrow>
             (case prefill (ADC_TOTAL_CHANNELS b) channels (map junk [0..<n]) of
                None \<Rightarrow> None
              | Some xs \<Rightarrow> Some (this\<lparr>samples := Some xs\<rparr>, log)))"

text \<open>The number of bits of a mask below \<open>n\<close>, as the spec counts them.\<close>

definition popcount_below :: "nat \<Rightarrow> uint32 \<Rightarrow> nat" where
  "popcount_below n w = card {i. i < n \<and> bit w i}"

section \<open>The destructor and \<open>init\<close>\<close>

text \<open>
  \<open>~ADC\<close> clears the schedule, frees the sample array and the performance counter, and
  uninitialises the hardware. The object itself goes with \<open>delete\<close>, which runs the
  destructor on a live object, does nothing on a null pointer, and has no defined
  behaviour on a dangling one.
\<close>

definition ADC_dtor :: "ADC \<Rightarrow> event list" where
  "ADC_dtor this = [ScheduleClear, PerfFree, ArchUninit (base_address this)]"

definition delete_ADC :: "nat option \<Rightarrow> module \<Rightarrow> module option" where
  "delete_ADC p s =
     (case p of
        None \<Rightarrow> Some s
      | Some a \<Rightarrow>
          (case heap s a of
             None \<Rightarrow> None
           | Some this \<Rightarrow> Some (s\<lparr>heap := (heap s)(a := None), trace := trace s @ ADC_dtor this\<rparr>)))"

text \<open>
  \<open>init\<close> returns the object, the result code and what it did.
  \<open>ScheduleOnInterval(interval, delay)\<close> is called with \<open>kINTERVAL\<close> twice.
\<close>

definition init :: "board \<Rightarrow> env \<Rightarrow> ADC \<Rightarrow> ADC \<times> int \<times> event list" where
  "init b e this =
     (let ret_init = px4_arch_adc_init e (base_address this) in
      if ret_init < 0
      then (this, ret_init, [ArchInit (base_address this), PX4_ERR ''arch adc init failed''])
      else (this\<lparr>schedule := Some (kINTERVAL b, kINTERVAL b)\<rparr>, PX4_OK,
            [ArchInit (base_address this)]))"

section \<open>One cycle: \<open>sample\<close> and \<open>Run\<close>\<close>

definition sample :: "env \<Rightarrow> uint32 \<Rightarrow> nat \<Rightarrow> uint32 \<times> event list" where
  "sample e base channel =
     (let result = px4_arch_adc_sample e base channel in
      (result,
       ArchSample base channel # (if result = UINT32_MAX then [PX4_ERR ''sample timeout''] else [])))"

text \<open>The scan loop of \<open>Run\<close>: \<open>_samples[i].am_data = sample(_samples[i].am_channel)\<close>.\<close>

definition scan_step :: "env \<Rightarrow> nat \<Rightarrow> (ADC \<times> event list) option \<Rightarrow> (ADC \<times> event list) option" where
  "scan_step e i st =
     (case st of
        None \<Rightarrow> None
      | Some (this, evs) \<Rightarrow>
          (case samples this of
             None \<Rightarrow> None
           | Some xs \<Rightarrow>
               if i < length xs then
                 (let (r, ev) = sample e (base_address this) (am_channel (xs ! i))
                  in Some (this\<lparr>samples := Some (xs[i := (xs ! i)\<lparr>am_data := r\<rparr>])\<rparr>, evs @ ev))
               else None))"

definition scan :: "env \<Rightarrow> ADC \<Rightarrow> (ADC \<times> event list) option" where
  "scan e this = fold (scan_step e) [0..<channel_count this] (Some (this, []))"

text \<open>\<open>adc_report_s adc{}\<close>: every field of the report is zero.\<close>

definition adc_report_zero :: "board \<Rightarrow> adc_report_s" where
  "adc_report_zero b =
     \<lparr>timestamp = 0, device_id = 0,
      channel_id = replicate (PX4_MAX_ADC_CHANNELS b) 0,
      raw_data = replicate (PX4_MAX_ADC_CHANNELS b) 0,
      resolution = 0, v_ref = 0\<rparr>"

text \<open>The copy loop, for \<open>i < max_num\<close>, and the loop that marks the unused slots.\<close>

definition copy_step :: "ADC \<Rightarrow> nat \<Rightarrow> adc_report_s option \<Rightarrow> adc_report_s option" where
  "copy_step this i st =
     (case st of
        None \<Rightarrow> None
      | Some adc \<Rightarrow>
          (case samples this of
             None \<Rightarrow> None
           | Some xs \<Rightarrow>
               if i < length xs then
                 Some (adc\<lparr>channel_id := (channel_id adc)[i := int (am_channel (xs ! i))],
                           raw_data := (raw_data adc)[i := am_data (xs ! i)]\<rparr>)
               else None))"

definition unused_step :: "nat \<Rightarrow> adc_report_s \<Rightarrow> adc_report_s" where
  "unused_step i adc = adc\<lparr>channel_id := (channel_id adc)[i := - 1]\<rparr>"

text \<open>Lines 113 to 135 of \<open>Run\<close>: the report of the cycle, from the sample array.\<close>

definition assemble :: "board \<Rightarrow> env \<Rightarrow> ADC \<Rightarrow> adc_report_s option" where
  "assemble b e this =
     (let adc = (adc_report_zero b)\<lparr>device_id := BUILTIN_ADC_DEVID b\<rparr>;
          max_num = (if channel_count this > PX4_MAX_ADC_CHANNELS b
                     then PX4_MAX_ADC_CHANNELS b else channel_count this)
      in case fold (copy_step this) [0..<max_num] (Some adc) of
           None \<Rightarrow> None
         | Some adc1 \<Rightarrow>
             Some ((fold unused_step [max_num..<PX4_MAX_ADC_CHANNELS b] adc1)
                     \<lparr>v_ref := px4_arch_adc_reference_v e,
                      resolution := px4_arch_adc_dn_fullcount e,
                      timestamp := hrt_absolute_time e\<rparr>))"

text \<open>
  Modelled from the spec: \<open>exit_and_cleanup()\<close> belongs to the module framework, which
  is not part of ADC.cpp. The spec has it perform the teardown (the destruction of the
  engine: deregister from the scheduler, release the SampleSet, release the
  instrumentation handle, uninitialise the hardware) and forget the instance reference.
\<close>

definition exit_and_cleanup :: "module \<Rightarrow> module option" where
  "exit_and_cleanup s =
     (case delete_ADC (object s) s of
        None \<Rightarrow> None
      | Some s' \<Rightarrow> Some (s'\<lparr>object := None, task_id := - 1\<rparr>))"

text \<open>\<open>Run\<close>, invoked by the scheduler on the object at address \<open>this\<close>.\<close>

definition Run :: "board \<Rightarrow> env \<Rightarrow> nat \<Rightarrow> module \<Rightarrow> module option" where
  "Run b e this s =
     (case heap s this of
        None \<Rightarrow> None
      | Some obj \<Rightarrow>
          if task_should_exit obj then exit_and_cleanup s
          else
            (case scan e obj of
               None \<Rightarrow> None
             | Some (obj', evs) \<Rightarrow>
                 (case assemble b e obj' of
                    None \<Rightarrow> None
                  | Some adc \<Rightarrow>
                      Some (s\<lparr>heap := (heap s)(this \<mapsto> obj'),
                              trace := trace s @ [PerfBegin] @ evs @ [Publish adc, PerfEnd]\<rparr>))))"

text \<open>
  Modelled from the spec: the scheduler is an external collaborator. It invokes \<open>Run\<close>
  once per interval on a work item that is registered; an object that was destroyed, or
  that has no schedule, gets no tick.
\<close>

definition tick :: "board \<Rightarrow> env \<Rightarrow> nat \<Rightarrow> module \<Rightarrow> module option" where
  "tick b e this s =
     (case heap s this of
        None \<Rightarrow> Some s
      | Some obj \<Rightarrow> if schedule obj = None then Some s else Run b e this s)"

fun ticks :: "board \<Rightarrow> env list \<Rightarrow> nat \<Rightarrow> module \<Rightarrow> module option" where
  "ticks b [] this s = Some s"
| "ticks b (e # es) this s =
     (case tick b e this s of None \<Rightarrow> None | Some s' \<Rightarrow> ticks b es this s')"

section \<open>The self-test\<close>

definition print_channels :: "board \<Rightarrow> adc_report_s \<Rightarrow> event list" where
  "print_channels b adc =
     concat (map (\<lambda>i. if channel_id adc ! i \<ge> 0
                       then [INFO_channel (channel_id adc ! i) (raw_data adc ! i)] else [])
                 [0..<PX4_MAX_ADC_CHANNELS b])"

text \<open>
  Iteration \<open>l\<close> of the loop of \<open>test\<close>: print, sleep 500 ms, poll. The poll is call
  number \<open>l + 1\<close> of \<open>update\<close> on the subscription; when it brings nothing the report
  keeps its value.
\<close>

definition test_step :: "board \<Rightarrow> env \<Rightarrow> nat \<Rightarrow> adc_report_s \<times> event list \<Rightarrow> adc_report_s \<times> event list" where
  "test_step b e l st =
     (let (adc, evs) = st;
          evs' = evs @ print_channels b adc @ [INFO_newline, Usleep 500000]
      in case update e (Suc l) of
           Some adc' \<Rightarrow> (adc', evs')
         | None \<Rightarrow> (adc, evs' @ [INFO_test_failed]))"

definition test :: "board \<Rightarrow> env \<Rightarrow> int \<times> event list" where
  "test b e =
     (case update e 0 of
        Some adc \<Rightarrow>
          (let (adc', evs) =
                 fold (test_step b e) [0..<20]
                   (adc, [Usleep 20000, INFO_device_id (device_id adc),
                          INFO_resolution (resolution adc), INFO_v_ref (v_ref adc)])
           in (0, evs @ [INFO_test_successful]))
      | None \<Rightarrow> (1, [Usleep 20000]))"

section \<open>Commands\<close>

definition print_usage :: "string option \<Rightarrow> int \<times> event list" where
  "print_usage reason =
     (0, (case reason of Some r \<Rightarrow> [PX4_WARN r] | None \<Rightarrow> []) @
         [PRINT_MODULE_DESCRIPTION,
          PRINT_MODULE_USAGE_NAME ''adc'' ''driver'',
          PRINT_MODULE_USAGE_COMMAND ''start'',
          PRINT_MODULE_USAGE_COMMAND ''test'',
          PRINT_MODULE_USAGE_DEFAULT_COMMANDS])"

text \<open>
  Modelled from the spec: \<open>is_running()\<close> belongs to the module framework, which is not
  part of ADC.cpp. The spec's controller is running when an instance exists.
\<close>

definition is_running :: "module \<Rightarrow> bool" where
  "is_running s \<longleftrightarrow> object s \<noteq> None"

text \<open>\<open>custom_command\<close> reads the verb \<open>argv[0]\<close>; the result is the state and the return code.\<close>

definition custom_command :: "board \<Rightarrow> env \<Rightarrow> string list \<Rightarrow> module \<Rightarrow> (module \<times> int) option" where
  "custom_command b e argv s =
     (case argv of
        [] \<Rightarrow> None
      | verb # _ \<Rightarrow>
          if verb = ''test'' then
            (if is_running s then
               (case object s of
                  None \<Rightarrow> None
                | Some p \<Rightarrow>
                    (case heap s p of
                       None \<Rightarrow> None
                     | Some _ \<Rightarrow>
                         (let (ret, evs) = test b e in Some (s\<lparr>trace := trace s @ evs\<rparr>, ret))))
             else Some (s, PX4_ERROR))
          else (let (ret, evs) = print_usage (Some ''unknown command'')
                in Some (s\<lparr>trace := trace s @ evs\<rparr>, ret)))"

text \<open>
  \<open>task_spawn\<close>: \<open>new ADC\<close> answers with an address or a null pointer. The object is
  stored in \<open>_object\<close> before \<open>init\<close> runs, and on failure it is deleted and the
  reference cleared.
\<close>

definition task_spawn :: "board \<Rightarrow> env \<Rightarrow> module \<Rightarrow> (module \<times> int) option" where
  "task_spawn b e s =
     (case new_ADC e of
        None \<Rightarrow>
          Some (s\<lparr>object := None, task_id := - 1, trace := trace s @ [PX4_ERR ''alloc failed'']\<rparr>,
                PX4_ERROR)
      | Some instance \<Rightarrow>
          (case ADC_ctor b e (SYSTEM_ADC_BASE b) (ADC_CHANNELS b) of
             None \<Rightarrow> None
           | Some (obj, log) \<Rightarrow>
               (let (obj', ret, evs) = init b e obj;
                    s' = s\<lparr>heap := (heap s)(instance \<mapsto> obj'), object := Some instance,
                           task_id := task_id_is_work_queue b, trace := trace s @ log @ evs\<rparr>
                in if ret = PX4_OK then Some (s', PX4_OK)
                   else (case delete_ADC (Some instance) s' of
                           None \<Rightarrow> None
                         | Some s'' \<Rightarrow> Some (s''\<lparr>object := None, task_id := - 1\<rparr>, PX4_ERROR)))))"

text \<open>
  Modelled from the spec: the dispatch of \<open>start\<close> belongs to the module framework, which
  is not part of ADC.cpp. The spec makes \<open>start\<close> valid only when no instance exists, and
  an explicit error that changes nothing otherwise.
\<close>

definition start_command :: "board \<Rightarrow> env \<Rightarrow> module \<Rightarrow> (module \<times> int) option" where
  "start_command b e s = (if is_running s then Some (s, PX4_ERROR) else task_spawn b e s)"

text \<open>The module before any command: no object, no task.\<close>

definition module_init :: module where
  "module_init = \<lparr>heap = Map.empty, object = None, task_id = - 1, trace = []\<rparr>"

section \<open>An example board\<close>

text \<open>
  The spec's example: channels 2 and 5 are requested and channel 10 is always on; twelve
  report slots, thirty-two hardware channels. In the example environment channel 5 times
  out and every other channel reads 100 plus its number.
\<close>

definition example_board :: board where
  "example_board =
     \<lparr>ADC_TOTAL_CHANNELS = 32, PX4_MAX_ADC_CHANNELS = 12,
      px4_arch_adc_temp_sensor_mask = 1024, kINTERVAL = 10000,
      BUILTIN_ADC_DEVID = 1, SYSTEM_ADC_BASE = 1073815552, ADC_CHANNELS = 36,
      task_id_is_work_queue = - 2\<rparr>"

definition example_env :: env where
  "example_env =
     \<lparr>new_ADC = Some 7,
      new_samples = Some (\<lambda>i. \<lparr>am_channel = 255, am_data = 3735928559\<rparr>),
      px4_arch_adc_init = (\<lambda>base. 0),
      px4_arch_adc_sample = (\<lambda>base channel. if channel = 5 then - 1 else 100 + of_nat channel),
      px4_arch_adc_reference_v = 1079194419,
      px4_arch_adc_dn_fullcount = 4096,
      hrt_absolute_time = 123456,
      update = (\<lambda>k. None)\<rparr>"

text \<open>The example module once \<open>start\<close> has succeeded, with its object at address 7.\<close>

definition example_obj :: ADC where
  "example_obj =
     \<lparr>base_address = 1073815552, channel_count = 3,
      samples = Some [\<lparr>am_channel = 2, am_data = 0\<rparr>, \<lparr>am_channel = 5, am_data = 0\<rparr>,
                      \<lparr>am_channel = 10, am_data = 0\<rparr>],
      schedule = Some (10000, 10000), task_should_exit = False\<rparr>"

definition example_module :: module where
  "example_module =
     \<lparr>heap = [7 \<mapsto> example_obj], object = Some 7, task_id = - 2,
      trace = [ArchInit 1073815552]\<rparr>"

text \<open>
  A board of the same capacity whose configuration requests channels 0 to 12, one more
  than a report holds, and an environment in which only channel 12 times out.
\<close>

definition crowded_board :: board where
  "crowded_board = example_board\<lparr>ADC_CHANNELS := 8191\<rparr>"

definition crowded_env :: env where
  "crowded_env =
     example_env\<lparr>px4_arch_adc_sample :=
                   (\<lambda>base channel. if channel = 12 then - 1 else 100 + of_nat channel)\<rparr>"

definition crowded_obj :: ADC where
  "crowded_obj =
     \<lparr>base_address = 1073815552, channel_count = 13,
      samples = Some (map (\<lambda>i. \<lparr>am_channel = i, am_data = 0\<rparr>) [0, 1, 2, 3, 4, 5, 6, 7, 8, 9, 10, 11, 12]),
      schedule = Some (10000, 10000), task_should_exit = False\<rparr>"

definition crowded_module :: module where
  "crowded_module =
     \<lparr>heap = [7 \<mapsto> crowded_obj], object = Some 7, task_id = - 2,
      trace = [PX4_ERR_too_small 12 13, ArchInit 1073815552]\<rparr>"

text \<open>An environment in which the hardware refuses to initialise.\<close>

definition failing_env :: env where
  "failing_env = example_env\<lparr>px4_arch_adc_init := (\<lambda>base. - 5)\<rparr>"

text \<open>The example module after a stop was requested of its object.\<close>

definition stopping_module :: module where
  "stopping_module =
     example_module\<lparr>heap := [7 \<mapsto> example_obj\<lparr>task_should_exit := True\<rparr>]\<rparr>"

text \<open>
  A report, and an environment for the self-test in which the first poll and every later
  one brings it, except the polls of iterations 3 and 8 of the loop (calls 4 and 9).
\<close>

definition example_report :: adc_report_s where
  "example_report =
     \<lparr>timestamp = 123456, device_id = 1,
      channel_id = [2, 5, 10, - 1, - 1, - 1, - 1, - 1, - 1, - 1, - 1, - 1],
      raw_data = [102, 4294967295, 110, 0, 0, 0, 0, 0, 0, 0, 0, 0],
      resolution = 4096, v_ref = 1079194419\<rparr>"

definition polling_env :: env where
  "polling_env =
     example_env\<lparr>update := (\<lambda>k. if k = 4 \<or> k = 9 then None else Some example_report)\<rparr>"

section \<open>The constructor builds the channel list\<close>

lemma channel_enabled_bit: "channel_enabled w i \<longleftrightarrow> bit w i"
  by (simp add: channel_enabled_def bit_iff_and_push_bit_not_eq_0)

lemma fold_count: "fold (\<lambda>i n. if P i then Suc n else n) xs k = k + length (filter P xs)"
  by (induction xs arbitrary: k) auto

lemma count_channels_filter: "count_channels n w = length (filter (bit w) [0..<n])"
  by (simp add: count_channels_def fold_count channel_enabled_bit)

lemma msg_update_all:
  "(m::px4_adc_msg_t)\<lparr>am_channel := i, am_data := d\<rparr> = \<lparr>am_channel = i, am_data = d\<rparr>"
  by simp

text \<open>
  The invariant of the second loop: started at \<open>index\<close> with room for every enabled
  channel still to come, it never writes out of bounds, leaves the slots below \<open>index\<close>
  alone and fills the next ones with the enabled channels in order.
\<close>

lemma prefill_fold:
  "idx + length (filter (bit w) is) \<le> length arr \<Longrightarrow>
   \<exists>arr'. fold (prefill_step w) is (Some (arr, idx)) =
             Some (arr', idx + length (filter (bit w) is))
      \<and> length arr' = length arr \<and> take idx arr' = take idx arr
      \<and> (\<forall>j < length (filter (bit w) is).
            arr' ! (idx + j) = \<lparr>am_channel = filter (bit w) is ! j, am_data = 0\<rparr>)"
proof (induction "is" arbitrary: arr idx)
  case Nil
  then show ?case by simp
next
  case (Cons i "is")
  show ?case
  proof (cases "bit w i")
    case False
    with Cons show ?thesis by (simp add: prefill_step_def channel_enabled_bit)
  next
    case True
    let ?arr1 = "arr[idx := \<lparr>am_channel = i, am_data = 0\<rparr>]"
    from True Cons.prems have lt: "idx < length arr"
      and le: "Suc idx + length (filter (bit w) is) \<le> length ?arr1"
      by simp_all
    from Cons.IH[OF le] obtain arr' where
      f: "fold (prefill_step w) is (Some (?arr1, Suc idx)) =
            Some (arr', Suc idx + length (filter (bit w) is))"
      and l: "length arr' = length ?arr1"
      and t: "take (Suc idx) arr' = take (Suc idx) ?arr1"
      and n: "\<forall>j < length (filter (bit w) is).
                arr' ! (Suc idx + j) = \<lparr>am_channel = filter (bit w) is ! j, am_data = 0\<rparr>"
      by blast
    have step: "prefill_step w i (Some (arr, idx)) = Some (?arr1, Suc idx)"
      using True lt by (simp add: prefill_step_def channel_enabled_bit msg_update_all)
    have at: "arr' ! idx = \<lparr>am_channel = i, am_data = 0\<rparr>"
    proof -
      have "arr' ! idx = take (Suc idx) arr' ! idx" by simp
      also have "\<dots> = take (Suc idx) ?arr1 ! idx" by (simp only: t)
      also have "\<dots> = \<lparr>am_channel = i, am_data = 0\<rparr>" using lt by simp
      finally show ?thesis .
    qed
    have tk: "take idx arr' = take idx arr"
    proof -
      have "take idx arr' = take idx (take (Suc idx) arr')" by (simp add: min_def)
      also have "\<dots> = take idx (take (Suc idx) ?arr1)" by (simp only: t)
      also have "\<dots> = take idx arr" by (simp add: min_def)
      finally show ?thesis .
    qed
    have nth: "\<forall>j < length (filter (bit w) (i # is)).
                 arr' ! (idx + j) = \<lparr>am_channel = filter (bit w) (i # is) ! j, am_data = 0\<rparr>"
    proof (intro allI impI)
      fix j assume "j < length (filter (bit w) (i # is))"
      then show "arr' ! (idx + j) = \<lparr>am_channel = filter (bit w) (i # is) ! j, am_data = 0\<rparr>"
        using True at n by (cases j) auto
    qed
    show ?thesis using True step f l tk nth by simp
  qed
qed

lemma prefill_eq:
  assumes "length arr = length (filter (bit w) [0..<n])"
  shows "prefill n w arr =
           Some (map (\<lambda>i. \<lparr>am_channel = i, am_data = 0\<rparr>) (filter (bit w) [0..<n]))"
proof -
  from assms have "0 + length (filter (bit w) [0..<n]) \<le> length arr" by simp
  from prefill_fold[OF this] obtain arr' where
    f: "fold (prefill_step w) [0..<n] (Some (arr, 0)) =
          Some (arr', 0 + length (filter (bit w) [0..<n]))"
    and l: "length arr' = length arr"
    and nth: "\<forall>j < length (filter (bit w) [0..<n]).
                arr' ! (0 + j) = \<lparr>am_channel = filter (bit w) [0..<n] ! j, am_data = 0\<rparr>"
    by blast
  have "arr' = map (\<lambda>i. \<lparr>am_channel = i, am_data = 0\<rparr>) (filter (bit w) [0..<n])"
    using l assms nth by (intro nth_equalityI) auto
  with f show ?thesis by (simp add: prefill_def)
qed

lemma card_filter_upt: "card {i. i < n \<and> P i} = length (filter P [0..<n])"
proof -
  have "set (filter P [0..<n]) = {i. i < n \<and> P i}" by auto
  moreover have "distinct (filter P [0..<n])" by simp
  ultimately show ?thesis by (metis distinct_card)
qed

text \<open>The constructed object, in closed form, when the sample array was allocated.\<close>

lemma ADC_ctor_eq:
  assumes "new_samples e = Some junk"
  shows "ADC_ctor b e base requested =
    Some (\<lparr>base_address = base,
           channel_count = length (filter (bit (requested OR px4_arch_adc_temp_sensor_mask b))
                                     [0..<ADC_TOTAL_CHANNELS b]),
           samples = Some (map (\<lambda>i. \<lparr>am_channel = i, am_data = 0\<rparr>)
                             (filter (bit (requested OR px4_arch_adc_temp_sensor_mask b))
                                [0..<ADC_TOTAL_CHANNELS b])),
           schedule = None, task_should_exit = False\<rparr>,
          if length (filter (bit (requested OR px4_arch_adc_temp_sensor_mask b))
                       [0..<ADC_TOTAL_CHANNELS b]) > PX4_MAX_ADC_CHANNELS b
          then [PX4_ERR_too_small (PX4_MAX_ADC_CHANNELS b)
                 (length (filter (bit (requested OR px4_arch_adc_temp_sensor_mask b))
                            [0..<ADC_TOTAL_CHANNELS b]))]
          else [])"
  using assms by (simp add: ADC_ctor_def Let_def count_channels_filter prefill_eq)

text \<open>
  C2. For every requested channel bitmask, when the sample array is allocated (and the
  board has at most 32 channels, the range in which the shift \<open>1 << i\<close> is defined), the
  constructed sample array has as many entries as the requested mask joined with the
  always-on mask has bits below \<open>ADC_TOTAL_CHANNELS\<close>; \<open>_channel_count\<close> is that
  length; the channel ids are exactly those bits, strictly ascending and unique; and every
  raw value is 0, whatever the array held when it was allocated.
\<close>

theorem ADC_ctor_sample_set:
  assumes "ADC_TOTAL_CHANNELS b \<le> 32" and "new_samples e = Some junk"
  shows "\<exists>this log xs.
           ADC_ctor b e base requested = Some (this, log) \<and> samples this = Some xs
         \<and> channel_count this = length xs
         \<and> length xs = popcount_below (ADC_TOTAL_CHANNELS b)
                          (requested OR px4_arch_adc_temp_sensor_mask b)
         \<and> set (map am_channel xs) =
             {i. i < ADC_TOTAL_CHANNELS b \<and> bit (requested OR px4_arch_adc_temp_sensor_mask b) i}
         \<and> sorted_wrt (<) (map am_channel xs) \<and> distinct (map am_channel xs)
         \<and> list_all (\<lambda>m. am_data m = 0) xs"
proof -
  let ?w = "requested OR px4_arch_adc_temp_sensor_mask b"
  let ?ids = "filter (bit ?w) [0..<ADC_TOTAL_CHANNELS b]"
  let ?xs = "map (\<lambda>i. \<lparr>am_channel = i, am_data = 0\<rparr>) ?ids"
  let ?obj = "\<lparr>base_address = base, channel_count = length ?ids, samples = Some ?xs,
                 schedule = None, task_should_exit = False\<rparr>"
  obtain log where c: "ADC_ctor b e base requested = Some (?obj, log)"
    using ADC_ctor_eq[OF assms(2), of b base requested] by simp
  have s: "samples ?obj = Some ?xs" by simp
  have n: "channel_count ?obj = length ?xs" by simp
  have ids: "map am_channel ?xs = ?ids" by (simp add: comp_def)
  have p1: "length ?xs = popcount_below (ADC_TOTAL_CHANNELS b) ?w"
    by (simp add: popcount_below_def card_filter_upt)
  have p2: "set (map am_channel ?xs) = {i. i < ADC_TOTAL_CHANNELS b \<and> bit ?w i}"
    unfolding ids by auto
  have p3: "sorted_wrt (<) (map am_channel ?xs)"
    unfolding ids by (simp add: sorted_wrt_filter)
  have p4: "distinct (map am_channel ?xs)"
    unfolding ids by simp
  have p5: "list_all (\<lambda>m. am_data m = 0) ?xs"
    by (simp add: list_all_iff)
  from c s n p1 p2 p3 p4 p5 show ?thesis by blast
qed

theorem ADC_ctor_sample_set_witness:
  "ADC_TOTAL_CHANNELS example_board \<le> 32
   \<and> new_samples example_env = Some (\<lambda>i. \<lparr>am_channel = 255, am_data = 3735928559\<rparr>)
   \<and> (\<exists>this log xs.
         ADC_ctor example_board example_env 5 36 = Some (this, log) \<and> samples this = Some xs
       \<and> channel_count this = length xs
       \<and> length xs = popcount_below 32 (36 OR 1024)
       \<and> set (map am_channel xs) = {i. i < 32 \<and> bit (36 OR 1024 :: uint32) i}
       \<and> sorted_wrt (<) (map am_channel xs) \<and> distinct (map am_channel xs)
       \<and> list_all (\<lambda>m. am_data m = 0) xs)"
proof -
  have h1: "ADC_TOTAL_CHANNELS example_board \<le> 32"
    by (simp add: example_board_def)
  have h2: "new_samples example_env = Some (\<lambda>i. \<lparr>am_channel = 255, am_data = 3735928559\<rparr>)"
    by (simp add: example_env_def)
  show ?thesis
    using h1 h2 ADC_ctor_sample_set[OF h1 h2, of 5 36]
    by (simp add: example_board_def)
qed

section \<open>The loops of \<open>Run\<close> in closed form\<close>

lemma update_map_take:
  assumes "n < length xs"
  shows "(map f (take n xs) @ drop n xs)[n := f (xs ! n)] = map f (take (Suc n) xs) @ drop (Suc n) xs"
proof -
  have "drop n xs = xs ! n # drop (Suc n) xs" using assms by (simp add: Cons_nth_drop_Suc)
  then show ?thesis using assms
    by (simp add: list_update_append take_Suc_conv_app_nth)
qed

lemma nth_map_take_drop:
  assumes "n < length xs"
  shows "(map f (take n xs) @ drop n xs) ! n = xs ! n"
  using assms by (simp add: nth_append)

lemma scan_fold:
  assumes "samples this = Some xs" and "n \<le> length xs"
  shows "fold (scan_step e) [0..<n] (Some (this, evs)) =
     Some (this\<lparr>samples := Some (map (\<lambda>m. m\<lparr>am_data := px4_arch_adc_sample e (base_address this) (am_channel m)\<rparr>) (take n xs) @ drop n xs)\<rparr>,
           evs @ concat (map (\<lambda>m. snd (sample e (base_address this) (am_channel m))) (take n xs)))"
  using assms(2)
proof (induction n)
  case 0
  then show ?case using assms(1) by simp
next
  case (Suc n)
  then have lt: "n < length xs" and le: "n \<le> length xs" by simp_all
  have "fold (scan_step e) [0..<Suc n] (Some (this, evs)) =
          scan_step e n (fold (scan_step e) [0..<n] (Some (this, evs)))"
    by simp
  also have "\<dots> = scan_step e n (Some (this\<lparr>samples := Some (map (\<lambda>m. m\<lparr>am_data := px4_arch_adc_sample e (base_address this) (am_channel m)\<rparr>) (take n xs) @ drop n xs)\<rparr>,
           evs @ concat (map (\<lambda>m. snd (sample e (base_address this) (am_channel m))) (take n xs))))"
    by (simp only: Suc.IH[OF le])
  also have "\<dots> = Some (this\<lparr>samples := Some (map (\<lambda>m. m\<lparr>am_data := px4_arch_adc_sample e (base_address this) (am_channel m)\<rparr>) (take (Suc n) xs) @ drop (Suc n) xs)\<rparr>,
           evs @ concat (map (\<lambda>m. snd (sample e (base_address this) (am_channel m))) (take (Suc n) xs)))"
    using lt assms(1)
      update_map_take[OF lt, of "\<lambda>m. m\<lparr>am_data := px4_arch_adc_sample e (base_address this) (am_channel m)\<rparr>"]
    by (simp add: scan_step_def sample_def Let_def nth_map_take_drop take_Suc_conv_app_nth)
  finally show ?case .
qed

lemma scan_eq:
  assumes "samples this = Some xs" and "length xs = channel_count this"
  shows "scan e this =
     Some (this\<lparr>samples := Some (map (\<lambda>m. m\<lparr>am_data := px4_arch_adc_sample e (base_address this) (am_channel m)\<rparr>) xs)\<rparr>,
           concat (map (\<lambda>m. snd (sample e (base_address this) (am_channel m))) xs))"
  using scan_fold[OF assms(1), of "channel_count this" e "[]"] assms(2)
  by (simp add: scan_def)

lemma copy_fold:
  assumes "samples this = Some xs" and "n \<le> length xs"
  shows "fold (copy_step this) [0..<n] (Some adc) =
     Some (adc\<lparr>channel_id := fold (\<lambda>i ys. ys[i := int (am_channel (xs ! i))]) [0..<n] (channel_id adc),
               raw_data := fold (\<lambda>i ys. ys[i := am_data (xs ! i)]) [0..<n] (raw_data adc)\<rparr>)"
  using assms(2)
proof (induction n)
  case 0
  then show ?case by simp
next
  case (Suc n)
  then have lt: "n < length xs" and le: "n \<le> length xs" by simp_all
  have "fold (copy_step this) [0..<Suc n] (Some adc) =
          copy_step this n (fold (copy_step this) [0..<n] (Some adc))"
    by simp
  also have "\<dots> = copy_step this n (Some (adc\<lparr>channel_id := fold (\<lambda>i ys. ys[i := int (am_channel (xs ! i))]) [0..<n] (channel_id adc),
               raw_data := fold (\<lambda>i ys. ys[i := am_data (xs ! i)]) [0..<n] (raw_data adc)\<rparr>))"
    by (simp only: Suc.IH[OF le])
  also have "\<dots> = Some (adc\<lparr>channel_id := fold (\<lambda>i ys. ys[i := int (am_channel (xs ! i))]) [0..<Suc n] (channel_id adc),
               raw_data := fold (\<lambda>i ys. ys[i := am_data (xs ! i)]) [0..<Suc n] (raw_data adc)\<rparr>)"
    using lt assms(1) by (simp add: copy_step_def)
  finally show ?case .
qed

lemma fold_update_prefix:
  assumes "n \<le> length ys"
  shows "fold (\<lambda>i ys. ys[i := f i]) [0..<n] ys = map f [0..<n] @ drop n ys"
  using assms
proof (induction n)
  case 0
  then show ?case by simp
next
  case (Suc n)
  then have lt: "n < length ys" and le: "n \<le> length ys" by simp_all
  have "drop n ys = ys ! n # drop (Suc n) ys" using lt by (simp add: Cons_nth_drop_Suc)
  then show ?case using lt
    by (simp add: Suc.IH[OF le] list_update_append)
qed

lemma fold_update_const:
  assumes "m \<le> n" and "n \<le> length ys"
  shows "fold (\<lambda>i ys. ys[i := v]) [m..<n] ys = take m ys @ replicate (n - m) v @ drop n ys"
  using assms
proof (induction n)
  case 0
  then show ?case by simp
next
  case (Suc n)
  show ?case
  proof (cases "m = Suc n")
    case True
    then show ?thesis by simp
  next
    case False
    with Suc.prems have mn: "m \<le> n" and lt: "n < length ys" and le: "n \<le> length ys" by simp_all
    have d: "drop n ys = ys ! n # drop (Suc n) ys" using lt by (simp add: Cons_nth_drop_Suc)
    have s: "Suc n - m = Suc (n - m)" using mn by simp
    show ?thesis using mn lt
      by (simp add: Suc.IH[OF mn le] d s list_update_append replicate_append_same)
  qed
qed

lemma unused_fold:
  "fold unused_step is adc = adc\<lparr>channel_id := fold (\<lambda>i ys. ys[i := - 1]) is (channel_id adc)\<rparr>"
  by (induction "is" arbitrary: adc) (simp_all add: unused_step_def)

lemma map_nth_upt_take:
  assumes "k \<le> length xs"
  shows "map (\<lambda>i. f (xs ! i)) [0..<k] = map f (take k xs)"
  using assms by (intro nth_equalityI) simp_all

lemma copy_report:
  assumes "samples this = Some xs" and "k \<le> length xs" and "k \<le> PX4_MAX_ADC_CHANNELS b"
  shows "fold (copy_step this) [0..<k] (Some ((adc_report_zero b)\<lparr>device_id := d\<rparr>)) =
     Some \<lparr>timestamp = 0, device_id = d,
           channel_id = map (\<lambda>m. int (am_channel m)) (take k xs)
                          @ replicate (PX4_MAX_ADC_CHANNELS b - k) 0,
           raw_data = map am_data (take k xs) @ replicate (PX4_MAX_ADC_CHANNELS b - k) 0,
           resolution = 0, v_ref = 0\<rparr>"
proof -
  have 1: "map (\<lambda>i. int (am_channel (xs ! i))) [0..<k] = map (\<lambda>m. int (am_channel m)) (take k xs)"
    by (rule map_nth_upt_take[OF assms(2)])
  have 2: "map (\<lambda>i. am_data (xs ! i)) [0..<k] = map am_data (take k xs)"
    by (rule map_nth_upt_take[OF assms(2)])
  show ?thesis
    using assms(3)
    by (simp add: copy_fold[OF assms(1,2)] fold_update_prefix adc_report_zero_def 1 2)
qed

lemma unused_report:
  assumes "k \<le> length xs" and "k \<le> M"
  shows "fold (\<lambda>i ys. ys[i := - 1]) [k..<M]
           (map (\<lambda>m. int (am_channel m)) (take k xs) @ replicate (M - k) 0) =
         map (\<lambda>m. int (am_channel m)) (take k xs) @ replicate (M - k) (- 1)"
  using assms by (subst fold_update_const) (simp_all add: min_def)

lemma assemble_k:
  assumes "samples this = Some xs" and "k \<le> length xs" and "k \<le> PX4_MAX_ADC_CHANNELS b"
    and "k = (if channel_count this > PX4_MAX_ADC_CHANNELS b
              then PX4_MAX_ADC_CHANNELS b else channel_count this)"
  shows "assemble b e this =
     Some \<lparr>timestamp = hrt_absolute_time e, device_id = BUILTIN_ADC_DEVID b,
           channel_id = map (\<lambda>m. int (am_channel m)) (take k xs)
                          @ replicate (PX4_MAX_ADC_CHANNELS b - k) (- 1),
           raw_data = map am_data (take k xs) @ replicate (PX4_MAX_ADC_CHANNELS b - k) 0,
           resolution = px4_arch_adc_dn_fullcount e, v_ref = px4_arch_adc_reference_v e\<rparr>"
  unfolding assemble_def Let_def assms(4)[symmetric]
  by (simp only: copy_report[OF assms(1-3)] option.case unused_fold)
     (simp add: unused_report[OF assms(2,3)])

lemma assemble_eq:
  assumes "samples this = Some xs" and "length xs = channel_count this"
  shows "assemble b e this =
     Some \<lparr>timestamp = hrt_absolute_time e, device_id = BUILTIN_ADC_DEVID b,
           channel_id = map (\<lambda>m. int (am_channel m)) (take (PX4_MAX_ADC_CHANNELS b) xs)
                          @ replicate (PX4_MAX_ADC_CHANNELS b - length xs) (- 1),
           raw_data = map am_data (take (PX4_MAX_ADC_CHANNELS b) xs)
                          @ replicate (PX4_MAX_ADC_CHANNELS b - length xs) 0,
           resolution = px4_arch_adc_dn_fullcount e, v_ref = px4_arch_adc_reference_v e\<rparr>"
proof (cases "channel_count this > PX4_MAX_ADC_CHANNELS b")
  case True
  with assms(2) have "PX4_MAX_ADC_CHANNELS b \<le> length xs" by simp
  from assemble_k[OF assms(1) this, of b e] True assms(2) show ?thesis by simp
next
  case False
  with assms(2) have "length xs \<le> PX4_MAX_ADC_CHANNELS b" by simp
  from assemble_k[OF assms(1) _ this, of e] False assms(2) show ?thesis by simp
qed

lemma Run_eq:
  assumes "heap s this = Some obj" and "\<not> task_should_exit obj"
    and "samples obj = Some xs" and "length xs = channel_count obj"
  shows "Run b e this s =
     Some (s\<lparr>heap := (heap s)(this \<mapsto> obj\<lparr>samples := Some (map (\<lambda>m. m\<lparr>am_data := px4_arch_adc_sample e (base_address obj) (am_channel m)\<rparr>) xs)\<rparr>),
             trace := trace s @ [PerfBegin]
               @ concat (map (\<lambda>m. snd (sample e (base_address obj) (am_channel m))) xs)
               @ [Publish \<lparr>timestamp = hrt_absolute_time e, device_id = BUILTIN_ADC_DEVID b,
                    channel_id = map (\<lambda>m. int (am_channel m)) (take (PX4_MAX_ADC_CHANNELS b) xs)
                          @ replicate (PX4_MAX_ADC_CHANNELS b - length xs) (- 1),
                    raw_data = map (\<lambda>m. px4_arch_adc_sample e (base_address obj) (am_channel m)) (take (PX4_MAX_ADC_CHANNELS b) xs)
                          @ replicate (PX4_MAX_ADC_CHANNELS b - length xs) 0,
                    resolution = px4_arch_adc_dn_fullcount e, v_ref = px4_arch_adc_reference_v e\<rparr>,
                  PerfEnd]\<rparr>)"
proof -
  let ?xs' = "map (\<lambda>m. m\<lparr>am_data := px4_arch_adc_sample e (base_address obj) (am_channel m)\<rparr>) xs"
  let ?obj' = "obj\<lparr>samples := Some ?xs'\<rparr>"
  have s': "samples ?obj' = Some ?xs'" and l': "length ?xs' = channel_count ?obj'"
    using assms(4) by simp_all
  show ?thesis
    unfolding Run_def
    using assms(1,2)
    by (simp add: scan_eq[OF assms(3,4)] assemble_eq[OF s' l'] take_map comp_def)
qed

text \<open>
  A cycle keeps the sample array as the constructor made it: the same channels, the same
  length. Without its sample array (the allocation failed in the constructor) an object
  with channels to scan cannot run a cycle: the first read goes through a null pointer.
\<close>

lemma scan_step_None: "fold (scan_step e) is None = None"
  by (induction "is") (simp_all add: scan_step_def)

lemma Run_null_samples:
  assumes "heap s this = Some obj" and "\<not> task_should_exit obj"
    and "samples obj = None" and "0 < channel_count obj"
  shows "Run b e this s = None"
proof -
  have "[0..<channel_count obj] = 0 # [1..<channel_count obj]"
    using assms(4) by (simp add: upt_conv_Cons)
  then have "scan e obj = fold (scan_step e) [1..<channel_count obj] (scan_step e 0 (Some (obj, [])))"
    by (simp add: scan_def)
  also have "scan_step e 0 (Some (obj, [])) = None"
    using assms(3) by (simp add: scan_step_def)
  finally have "scan e obj = None" by (simp add: scan_step_None)
  then show ?thesis using assms(1,2) by (simp add: Run_def)
qed

lemma Run_keeps_sample_array:
  assumes "heap s this = Some obj" and "\<not> task_should_exit obj"
    and "samples obj = Some xs" and "length xs = channel_count obj"
  shows "\<exists>s' obj' xs'. Run b e this s = Some s' \<and> heap s' this = Some obj'
           \<and> \<not> task_should_exit obj' \<and> samples obj' = Some xs'
           \<and> length xs' = channel_count obj' \<and> map am_channel xs' = map am_channel xs"
  by (simp add: Run_eq[OF assms] assms(2,4) comp_def)

section \<open>The example boards, run\<close>

text \<open>
  Both example modules are what \<open>task_spawn\<close> leaves behind on its board, so the states
  the examples below start from are states the driver reaches.
\<close>

lemma ctor_example:
  "ADC_ctor example_board example_env (SYSTEM_ADC_BASE example_board) (ADC_CHANNELS example_board) =
     Some (example_obj\<lparr>schedule := None\<rparr>, [])"
  by code_simp

lemma spawn_example: "task_spawn example_board example_env module_init = Some (example_module, PX4_OK)"
proof -
  have i: "init example_board example_env (example_obj\<lparr>schedule := None\<rparr>) = (example_obj, PX4_OK, [ArchInit 1073815552])"
    by (simp add: init_def example_env_def example_board_def example_obj_def)
  have n: "new_ADC example_env = Some 7" by (simp add: example_env_def)
  show ?thesis
    by (simp add: task_spawn_def ctor_example i n module_init_def example_module_def)
       (simp add: example_board_def)
qed

lemma ctor_crowded:
  "ADC_ctor crowded_board example_env (SYSTEM_ADC_BASE crowded_board) (ADC_CHANNELS crowded_board) =
     Some (crowded_obj\<lparr>schedule := None\<rparr>, [PX4_ERR_too_small 12 13])"
  by code_simp

lemma spawn_crowded: "task_spawn crowded_board example_env module_init = Some (crowded_module, PX4_OK)"
proof -
  have i: "init crowded_board example_env (crowded_obj\<lparr>schedule := None\<rparr>) = (crowded_obj, PX4_OK, [ArchInit 1073815552])"
    by (simp add: init_def example_env_def example_board_def crowded_obj_def crowded_board_def)
  have n: "new_ADC example_env = Some 7" by (simp add: example_env_def)
  show ?thesis
    by (simp add: task_spawn_def ctor_crowded i n module_init_def crowded_module_def)
       (simp add: example_board_def crowded_board_def)
qed

text \<open>
  One cycle on the example module: channels 2, 5 and 10 are read once each, channel 5
  times out, and the report carries the three readings and nine unused slots.
\<close>

lemma Run_example:
  "Run example_board example_env 7 example_module =
     Some (example_module
       \<lparr>heap := [7 \<mapsto> example_obj\<lparr>samples :=
                   Some [\<lparr>am_channel = 2, am_data = 102\<rparr>, \<lparr>am_channel = 5, am_data = 4294967295\<rparr>,
                         \<lparr>am_channel = 10, am_data = 110\<rparr>]\<rparr>],
        trace := [ArchInit 1073815552, PerfBegin,
                  ArchSample 1073815552 2, ArchSample 1073815552 5, PX4_ERR ''sample timeout'',
                  ArchSample 1073815552 10,
                  Publish \<lparr>timestamp = 123456, device_id = 1,
                           channel_id = [2, 5, 10, - 1, - 1, - 1, - 1, - 1, - 1, - 1, - 1, - 1],
                           raw_data = [102, 4294967295, 110, 0, 0, 0, 0, 0, 0, 0, 0, 0],
                           resolution = 4096, v_ref = 1079194419\<rparr>,
                  PerfEnd]\<rparr>)"
proof -
  have h: "heap example_module 7 = Some example_obj" by (simp add: example_module_def)
  have x: "\<not> task_should_exit example_obj" by (simp add: example_obj_def)
  have s: "samples example_obj = Some [\<lparr>am_channel = 2, am_data = 0\<rparr>, \<lparr>am_channel = 5, am_data = 0\<rparr>,
                      \<lparr>am_channel = 10, am_data = 0\<rparr>]" by (simp add: example_obj_def)
  have l: "length [\<lparr>am_channel = 2, am_data = 0\<rparr>, \<lparr>am_channel = 5, am_data = 0\<rparr>,
                      \<lparr>am_channel = (10::nat), am_data = (0::uint32)\<rparr>] = channel_count example_obj" by (simp add: example_obj_def)
  have r: "replicate 9 x = [x, x, x, x, x, x, x, x, x]" for x :: 'a
    by (simp add: numeral_eq_Suc)
  have m: "(- 1 :: uint32) = 4294967295" by simp
  show ?thesis
    by (simp add: Run_eq[OF h x s l] sample_def UINT32_MAX_def)
       (simp add: example_env_def example_board_def example_module_def example_obj_def r m)
qed

section \<open>The report of a cycle\<close>

text \<open>
  The theorems of this section are about a live object that has not been asked to exit
  and whose sample array was allocated with \<open>_channel_count\<close> entries, which is how the
  constructor leaves it and how \<open>Run\<close> keeps it.
\<close>

text \<open>
  C1. In every cycle \<open>Run\<close> publishes a report whose two arrays have
  \<open>PX4_MAX_ADC_CHANNELS\<close> slots. With \<open>k\<close> the smaller of the configured channel
  count and \<open>PX4_MAX_ADC_CHANNELS\<close>, the first \<open>k\<close> slots of \<open>channel_id\<close> and of
  \<open>raw_data\<close> are the first \<open>k\<close> entries of the sample array as just sampled, in
  order, and every \<open>channel_id\<close> slot from \<open>k\<close> on is -1. When more channels are
  configured than the report holds, the report is exactly the first
  \<open>PX4_MAX_ADC_CHANNELS\<close> entries: the later ones are not written anywhere in it.
\<close>

theorem Run_report_copy:
  assumes "heap s this = Some obj" and "\<not> task_should_exit obj"
    and "samples obj = Some xs" and "length xs = channel_count obj"
  shows "\<exists>xs' evs adc.
           Run b e this s =
             Some (s\<lparr>heap := (heap s)(this \<mapsto> obj\<lparr>samples := Some xs'\<rparr>),
                     trace := trace s @ [PerfBegin] @ evs @ [Publish adc, PerfEnd]\<rparr>)
         \<and> length xs' = channel_count obj
         \<and> length (channel_id adc) = PX4_MAX_ADC_CHANNELS b
         \<and> length (raw_data adc) = PX4_MAX_ADC_CHANNELS b
         \<and> take (min (channel_count obj) (PX4_MAX_ADC_CHANNELS b)) (channel_id adc) =
             map (\<lambda>m. int (am_channel m)) (take (min (channel_count obj) (PX4_MAX_ADC_CHANNELS b)) xs')
         \<and> take (min (channel_count obj) (PX4_MAX_ADC_CHANNELS b)) (raw_data adc) =
             map am_data (take (min (channel_count obj) (PX4_MAX_ADC_CHANNELS b)) xs')
         \<and> drop (min (channel_count obj) (PX4_MAX_ADC_CHANNELS b)) (channel_id adc) =
             replicate (PX4_MAX_ADC_CHANNELS b - min (channel_count obj) (PX4_MAX_ADC_CHANNELS b)) (- 1)
         \<and> (PX4_MAX_ADC_CHANNELS b < channel_count obj \<longrightarrow>
               channel_id adc = map (\<lambda>m. int (am_channel m)) (take (PX4_MAX_ADC_CHANNELS b) xs')
             \<and> raw_data adc = map am_data (take (PX4_MAX_ADC_CHANNELS b) xs'))"
proof -
  let ?M = "PX4_MAX_ADC_CHANNELS b"
  let ?rd = "\<lambda>m. px4_arch_adc_sample e (base_address obj) (am_channel m)"
  let ?xs' = "map (\<lambda>m. m\<lparr>am_data := ?rd m\<rparr>) xs"
  let ?evs = "concat (map (\<lambda>m. snd (sample e (base_address obj) (am_channel m))) xs)"
  let ?adc = "\<lparr>timestamp = hrt_absolute_time e, device_id = BUILTIN_ADC_DEVID b,
               channel_id = map (\<lambda>m. int (am_channel m)) (take ?M xs) @ replicate (?M - length xs) (- 1),
               raw_data = map ?rd (take ?M xs) @ replicate (?M - length xs) 0,
               resolution = px4_arch_adc_dn_fullcount e, v_ref = px4_arch_adc_reference_v e\<rparr>"
  have r: "Run b e this s =
             Some (s\<lparr>heap := (heap s)(this \<mapsto> obj\<lparr>samples := Some ?xs'\<rparr>),
                     trace := trace s @ [PerfBegin] @ ?evs @ [Publish ?adc, PerfEnd]\<rparr>)"
    by (rule Run_eq[OF assms])
  have l: "length ?xs' = channel_count obj" using assms(4) by simp
  have c1: "length (channel_id ?adc) = ?M" and c2: "length (raw_data ?adc) = ?M"
    by simp_all
  have t1: "take (min (channel_count obj) ?M) (channel_id ?adc) =
             map (\<lambda>m. int (am_channel m)) (take (min (channel_count obj) ?M) ?xs')"
    using assms(4) by (simp add: take_map comp_def min_def)
  have t2: "take (min (channel_count obj) ?M) (raw_data ?adc) =
             map am_data (take (min (channel_count obj) ?M) ?xs')"
    using assms(4) by (simp add: take_map comp_def min_def)
  have d: "drop (min (channel_count obj) ?M) (channel_id ?adc) =
             replicate (?M - min (channel_count obj) ?M) (- 1)"
    using assms(4) by (simp add: min_def)
  have tr: "?M < channel_count obj \<longrightarrow>
               channel_id ?adc = map (\<lambda>m. int (am_channel m)) (take ?M ?xs')
             \<and> raw_data ?adc = map am_data (take ?M ?xs')"
    using assms(4) by (simp add: take_map comp_def)
  from r l c1 c2 t1 t2 d tr show ?thesis by blast
qed

theorem Run_report_copy_witness:
  "heap crowded_module 7 = Some crowded_obj \<and> \<not> task_should_exit crowded_obj
   \<and> samples crowded_obj =
         Some (map (\<lambda>i. \<lparr>am_channel = i, am_data = 0\<rparr>) [0, 1, 2, 3, 4, 5, 6, 7, 8, 9, 10, 11, 12])
   \<and> length (map (\<lambda>i. \<lparr>am_channel = i, am_data = 0 :: uint32\<rparr>) [0, 1, 2, 3, 4, 5, 6, 7, 8, 9, 10, 11, 12 :: nat]) =
         channel_count crowded_obj
   \<and> PX4_MAX_ADC_CHANNELS crowded_board < channel_count crowded_obj
   \<and> (\<exists>xs' evs adc.
           Run crowded_board crowded_env 7 crowded_module =
             Some (crowded_module\<lparr>heap := (heap crowded_module)(7 \<mapsto> crowded_obj\<lparr>samples := Some xs'\<rparr>),
                     trace := trace crowded_module @ [PerfBegin] @ evs @ [Publish adc, PerfEnd]\<rparr>)
         \<and> length xs' = 13
         \<and> length (channel_id adc) = 12
         \<and> length (raw_data adc) = 12
         \<and> channel_id adc = map (\<lambda>m. int (am_channel m)) (take 12 xs')
         \<and> raw_data adc = map am_data (take 12 xs'))"
proof -
  have h1: "heap crowded_module 7 = Some crowded_obj"
    by (simp add: crowded_module_def)
  have h2: "\<not> task_should_exit crowded_obj"
    by (simp add: crowded_obj_def)
  have h3: "samples crowded_obj =
         Some (map (\<lambda>i. \<lparr>am_channel = i, am_data = 0\<rparr>) [0, 1, 2, 3, 4, 5, 6, 7, 8, 9, 10, 11, 12])"
    by (simp add: crowded_obj_def)
  have h4: "length (map (\<lambda>i. \<lparr>am_channel = i, am_data = 0 :: uint32\<rparr>) [0, 1, 2, 3, 4, 5, 6, 7, 8, 9, 10, 11, 12 :: nat]) =
         channel_count crowded_obj"
    by (simp add: crowded_obj_def)
  have h5: "PX4_MAX_ADC_CHANNELS crowded_board < channel_count crowded_obj"
    by (simp add: crowded_obj_def crowded_board_def example_board_def)
  have m: "PX4_MAX_ADC_CHANNELS crowded_board = 12" and c: "channel_count crowded_obj = 13"
    by (simp_all add: crowded_obj_def crowded_board_def example_board_def)
  from Run_report_copy[OF h1 h2 h3 h4, of crowded_board crowded_env] h5
  have "\<exists>xs' evs adc.
           Run crowded_board crowded_env 7 crowded_module =
             Some (crowded_module\<lparr>heap := (heap crowded_module)(7 \<mapsto> crowded_obj\<lparr>samples := Some xs'\<rparr>),
                     trace := trace crowded_module @ [PerfBegin] @ evs @ [Publish adc, PerfEnd]\<rparr>)
         \<and> length xs' = 13
         \<and> length (channel_id adc) = 12
         \<and> length (raw_data adc) = 12
         \<and> channel_id adc = map (\<lambda>m. int (am_channel m)) (take 12 xs')
         \<and> raw_data adc = map am_data (take 12 xs')"
    unfolding m c by blast
  with h1 h2 h3 h4 h5 show ?thesis by blast
qed

text \<open>
  C10. In every published report, every slot from the number of reported channels on has
  \<open>raw_data\<close> 0 (and \<open>channel_id\<close> -1): the report starts out all zero in each cycle
  and the copy loop does not reach these slots.
\<close>

theorem Run_report_unused_slots:
  assumes "heap s this = Some obj" and "\<not> task_should_exit obj"
    and "samples obj = Some xs" and "length xs = channel_count obj"
  shows "\<exists>xs' evs adc.
           Run b e this s =
             Some (s\<lparr>heap := (heap s)(this \<mapsto> obj\<lparr>samples := Some xs'\<rparr>),
                     trace := trace s @ [PerfBegin] @ evs @ [Publish adc, PerfEnd]\<rparr>)
         \<and> length (raw_data adc) = PX4_MAX_ADC_CHANNELS b
         \<and> (\<forall>i. min (channel_count obj) (PX4_MAX_ADC_CHANNELS b) \<le> i \<and> i < PX4_MAX_ADC_CHANNELS b \<longrightarrow>
                 raw_data adc ! i = 0 \<and> channel_id adc ! i = - 1)"
proof -
  let ?M = "PX4_MAX_ADC_CHANNELS b"
  let ?rd = "\<lambda>m. px4_arch_adc_sample e (base_address obj) (am_channel m)"
  let ?xs' = "map (\<lambda>m. m\<lparr>am_data := ?rd m\<rparr>) xs"
  let ?evs = "concat (map (\<lambda>m. snd (sample e (base_address obj) (am_channel m))) xs)"
  let ?adc = "\<lparr>timestamp = hrt_absolute_time e, device_id = BUILTIN_ADC_DEVID b,
               channel_id = map (\<lambda>m. int (am_channel m)) (take ?M xs) @ replicate (?M - length xs) (- 1),
               raw_data = map ?rd (take ?M xs) @ replicate (?M - length xs) 0,
               resolution = px4_arch_adc_dn_fullcount e, v_ref = px4_arch_adc_reference_v e\<rparr>"
  have r: "Run b e this s =
             Some (s\<lparr>heap := (heap s)(this \<mapsto> obj\<lparr>samples := Some ?xs'\<rparr>),
                     trace := trace s @ [PerfBegin] @ ?evs @ [Publish ?adc, PerfEnd]\<rparr>)"
    by (rule Run_eq[OF assms])
  have l: "length (raw_data ?adc) = ?M" by simp
  have z: "\<forall>i. min (channel_count obj) ?M \<le> i \<and> i < ?M \<longrightarrow>
                 raw_data ?adc ! i = 0 \<and> channel_id ?adc ! i = - 1"
    using assms(4) by (auto simp: nth_append min_def)
  from r l z show ?thesis by blast
qed

theorem Run_report_unused_slots_witness:
  "heap example_module 7 = Some example_obj \<and> \<not> task_should_exit example_obj
   \<and> samples example_obj =
        Some [\<lparr>am_channel = 2, am_data = 0\<rparr>, \<lparr>am_channel = 5, am_data = 0\<rparr>,
              \<lparr>am_channel = 10, am_data = 0\<rparr>]
   \<and> length [\<lparr>am_channel = 2, am_data = 0 :: uint32\<rparr>, \<lparr>am_channel = 5, am_data = 0\<rparr>,
              \<lparr>am_channel = 10 :: nat, am_data = 0\<rparr>] = channel_count example_obj
   \<and> (\<exists>xs' evs adc.
           Run example_board example_env 7 example_module =
             Some (example_module\<lparr>heap := (heap example_module)(7 \<mapsto> example_obj\<lparr>samples := Some xs'\<rparr>),
                     trace := trace example_module @ [PerfBegin] @ evs @ [Publish adc, PerfEnd]\<rparr>)
         \<and> length (raw_data adc) = 12
         \<and> raw_data adc ! 3 = 0 \<and> channel_id adc ! 3 = - 1
         \<and> raw_data adc ! 11 = 0 \<and> channel_id adc ! 11 = - 1)"
proof -
  have h1: "heap example_module 7 = Some example_obj"
    by (simp add: example_module_def)
  have h2: "\<not> task_should_exit example_obj"
    by (simp add: example_obj_def)
  have h3: "samples example_obj =
        Some [\<lparr>am_channel = 2, am_data = 0\<rparr>, \<lparr>am_channel = 5, am_data = 0\<rparr>,
              \<lparr>am_channel = 10, am_data = 0\<rparr>]"
    by (simp add: example_obj_def)
  have h4: "length [\<lparr>am_channel = 2, am_data = 0 :: uint32\<rparr>, \<lparr>am_channel = 5, am_data = 0\<rparr>,
              \<lparr>am_channel = 10 :: nat, am_data = 0\<rparr>] = channel_count example_obj"
    by (simp add: example_obj_def)
  have m: "PX4_MAX_ADC_CHANNELS example_board = 12" and c: "channel_count example_obj = 3"
    by (simp_all add: example_obj_def example_board_def)
  have i: "min 3 12 \<le> (3::nat) \<and> (3::nat) < 12" "min 3 12 \<le> (11::nat) \<and> (11::nat) < 12"
    by simp_all
  from Run_report_unused_slots[OF h1 h2 h3 h4, of example_board example_env] i
  have "\<exists>xs' evs adc.
           Run example_board example_env 7 example_module =
             Some (example_module\<lparr>heap := (heap example_module)(7 \<mapsto> example_obj\<lparr>samples := Some xs'\<rparr>),
                     trace := trace example_module @ [PerfBegin] @ evs @ [Publish adc, PerfEnd]\<rparr>)
         \<and> length (raw_data adc) = 12
         \<and> raw_data adc ! 3 = 0 \<and> channel_id adc ! 3 = - 1
         \<and> raw_data adc ! 11 = 0 \<and> channel_id adc ! 11 = - 1"
    unfolding m c by blast
  with h1 h2 h3 h4 show ?thesis by blast
qed

text \<open>
  The report has no slot for a channel whose place in the sample array is at or beyond
  \<open>PX4_MAX_ADC_CHANNELS\<close>. On the crowded board channel 12 times out: the sentinel is
  stored in the sample array and the timeout is logged, but the published report holds
  channels 0 to 11 only, and none of its \<open>raw_data\<close> is the sentinel.
\<close>

theorem sample_timeout_beyond_capacity_counterexample:
  "px4_arch_adc_sample crowded_env (base_address crowded_obj) 12 = UINT32_MAX
   \<and> Run crowded_board crowded_env 7 crowded_module =
       Some (crowded_module
         \<lparr>heap := [7 \<mapsto> crowded_obj\<lparr>samples :=
             Some [\<lparr>am_channel = 0, am_data = 100\<rparr>, \<lparr>am_channel = 1, am_data = 101\<rparr>,
                   \<lparr>am_channel = 2, am_data = 102\<rparr>, \<lparr>am_channel = 3, am_data = 103\<rparr>,
                   \<lparr>am_channel = 4, am_data = 104\<rparr>, \<lparr>am_channel = 5, am_data = 105\<rparr>,
                   \<lparr>am_channel = 6, am_data = 106\<rparr>, \<lparr>am_channel = 7, am_data = 107\<rparr>,
                   \<lparr>am_channel = 8, am_data = 108\<rparr>, \<lparr>am_channel = 9, am_data = 109\<rparr>,
                   \<lparr>am_channel = 10, am_data = 110\<rparr>, \<lparr>am_channel = 11, am_data = 111\<rparr>,
                   \<lparr>am_channel = 12, am_data = 4294967295\<rparr>]\<rparr>],
          trace := [PX4_ERR_too_small 12 13, ArchInit 1073815552, PerfBegin,
                    ArchSample 1073815552 0, ArchSample 1073815552 1, ArchSample 1073815552 2,
                    ArchSample 1073815552 3, ArchSample 1073815552 4, ArchSample 1073815552 5,
                    ArchSample 1073815552 6, ArchSample 1073815552 7, ArchSample 1073815552 8,
                    ArchSample 1073815552 9, ArchSample 1073815552 10, ArchSample 1073815552 11,
                    ArchSample 1073815552 12, PX4_ERR ''sample timeout'',
                    Publish \<lparr>timestamp = 123456, device_id = 1,
                             channel_id = [0, 1, 2, 3, 4, 5, 6, 7, 8, 9, 10, 11],
                             raw_data = [100, 101, 102, 103, 104, 105, 106, 107, 108, 109, 110, 111],
                             resolution = 4096, v_ref = 1079194419\<rparr>,
                    PerfEnd]\<rparr>)"
proof -
  let ?xs = "map (\<lambda>i. \<lparr>am_channel = i, am_data = 0 :: uint32\<rparr>) [0, 1, 2, 3, 4, 5, 6, 7, 8, 9, 10, 11, 12 :: nat]"
  have h: "heap crowded_module 7 = Some crowded_obj" by (simp add: crowded_module_def)
  have x: "\<not> task_should_exit crowded_obj" by (simp add: crowded_obj_def)
  have s: "samples crowded_obj = Some ?xs" by (simp add: crowded_obj_def)
  have l: "length ?xs = channel_count crowded_obj" by (simp add: crowded_obj_def)
  have m: "(- 1 :: uint32) = 4294967295" by simp
  have t: "px4_arch_adc_sample crowded_env (base_address crowded_obj) 12 = UINT32_MAX"
    by (simp add: crowded_env_def UINT32_MAX_def)
  have "Run crowded_board crowded_env 7 crowded_module = Some (crowded_module
         \<lparr>heap := [7 \<mapsto> crowded_obj\<lparr>samples :=
             Some [\<lparr>am_channel = 0, am_data = 100\<rparr>, \<lparr>am_channel = 1, am_data = 101\<rparr>,
                   \<lparr>am_channel = 2, am_data = 102\<rparr>, \<lparr>am_channel = 3, am_data = 103\<rparr>,
                   \<lparr>am_channel = 4, am_data = 104\<rparr>, \<lparr>am_channel = 5, am_data = 105\<rparr>,
                   \<lparr>am_channel = 6, am_data = 106\<rparr>, \<lparr>am_channel = 7, am_data = 107\<rparr>,
                   \<lparr>am_channel = 8, am_data = 108\<rparr>, \<lparr>am_channel = 9, am_data = 109\<rparr>,
                   \<lparr>am_channel = 10, am_data = 110\<rparr>, \<lparr>am_channel = 11, am_data = 111\<rparr>,
                   \<lparr>am_channel = 12, am_data = 4294967295\<rparr>]\<rparr>],
          trace := [PX4_ERR_too_small 12 13, ArchInit 1073815552, PerfBegin,
                    ArchSample 1073815552 0, ArchSample 1073815552 1, ArchSample 1073815552 2,
                    ArchSample 1073815552 3, ArchSample 1073815552 4, ArchSample 1073815552 5,
                    ArchSample 1073815552 6, ArchSample 1073815552 7, ArchSample 1073815552 8,
                    ArchSample 1073815552 9, ArchSample 1073815552 10, ArchSample 1073815552 11,
                    ArchSample 1073815552 12, PX4_ERR ''sample timeout'',
                    Publish \<lparr>timestamp = 123456, device_id = 1,
                             channel_id = [0, 1, 2, 3, 4, 5, 6, 7, 8, 9, 10, 11],
                             raw_data = [100, 101, 102, 103, 104, 105, 106, 107, 108, 109, 110, 111],
                             resolution = 4096, v_ref = 1079194419\<rparr>,
                    PerfEnd]\<rparr>)"
    by (simp add: Run_eq[OF h x s l] sample_def UINT32_MAX_def)
       (simp add: crowded_env_def example_env_def crowded_board_def example_board_def
          crowded_module_def crowded_obj_def m)
  with t show ?thesis by blast
qed

lemma sample_events_filter:
  "filter (\<lambda>ev. ev \<noteq> PX4_ERR ''sample timeout'')
     (concat (map (\<lambda>m. snd (sample e base (am_channel m))) xs)) =
   map (\<lambda>m. ArchSample base (am_channel m)) xs"
  by (induction xs) (simp_all add: sample_def Let_def)

lemma sample_events_timeout:
  assumes "i < length xs" and "px4_arch_adc_sample e base (am_channel (xs ! i)) = UINT32_MAX"
  shows "PX4_ERR ''sample timeout'' \<in> set (concat (map (\<lambda>m. snd (sample e base (am_channel m))) xs))"
proof -
  have "xs ! i \<in> set xs" using assms(1) by simp
  moreover have "PX4_ERR ''sample timeout'' \<in> set (snd (sample e base (am_channel (xs ! i))))"
    using assms(2) by (simp add: sample_def Let_def)
  ultimately show ?thesis by auto
qed

text \<open>
  C5, amended. In every cycle and for every configured channel, if the hardware read
  returns \<open>UINT32_MAX\<close>, that value is stored in the channel's slot of the sample array,
  each channel is read exactly once (no retry), the timeout is logged, the cycle runs to
  its end and publishes its report, and, when the channel's index in the sample array is
  below \<open>PX4_MAX_ADC_CHANNELS\<close>, the report carries the channel with \<open>raw_data\<close> equal
  to \<open>UINT32_MAX\<close> at that index.
\<close>

theorem Run_sample_timeout:
  assumes "heap s this = Some obj" and "\<not> task_should_exit obj"
    and "samples obj = Some xs" and "length xs = channel_count obj"
    and "i < channel_count obj"
    and "px4_arch_adc_sample e (base_address obj) (am_channel (xs ! i)) = UINT32_MAX"
  shows "\<exists>xs' evs adc.
           Run b e this s =
             Some (s\<lparr>heap := (heap s)(this \<mapsto> obj\<lparr>samples := Some xs'\<rparr>),
                     trace := trace s @ [PerfBegin] @ evs @ [Publish adc, PerfEnd]\<rparr>)
         \<and> length xs' = channel_count obj
         \<and> xs' ! i = (xs ! i)\<lparr>am_data := UINT32_MAX\<rparr>
         \<and> filter (\<lambda>ev. ev \<noteq> PX4_ERR ''sample timeout'') evs =
             map (\<lambda>m. ArchSample (base_address obj) (am_channel m)) xs
         \<and> PX4_ERR ''sample timeout'' \<in> set evs
         \<and> (i < PX4_MAX_ADC_CHANNELS b \<longrightarrow>
               channel_id adc ! i = int (am_channel (xs ! i)) \<and> raw_data adc ! i = UINT32_MAX)"
proof -
  let ?M = "PX4_MAX_ADC_CHANNELS b"
  let ?rd = "\<lambda>m. px4_arch_adc_sample e (base_address obj) (am_channel m)"
  let ?xs' = "map (\<lambda>m. m\<lparr>am_data := ?rd m\<rparr>) xs"
  let ?evs = "concat (map (\<lambda>m. snd (sample e (base_address obj) (am_channel m))) xs)"
  let ?adc = "\<lparr>timestamp = hrt_absolute_time e, device_id = BUILTIN_ADC_DEVID b,
               channel_id = map (\<lambda>m. int (am_channel m)) (take ?M xs) @ replicate (?M - length xs) (- 1),
               raw_data = map ?rd (take ?M xs) @ replicate (?M - length xs) 0,
               resolution = px4_arch_adc_dn_fullcount e, v_ref = px4_arch_adc_reference_v e\<rparr>"
  have i: "i < length xs" using assms(4,5) by simp
  have r: "Run b e this s =
             Some (s\<lparr>heap := (heap s)(this \<mapsto> obj\<lparr>samples := Some ?xs'\<rparr>),
                     trace := trace s @ [PerfBegin] @ ?evs @ [Publish ?adc, PerfEnd]\<rparr>)"
    by (rule Run_eq[OF assms(1-4)])
  have l: "length ?xs' = channel_count obj" using assms(4) by simp
  have x: "?xs' ! i = (xs ! i)\<lparr>am_data := UINT32_MAX\<rparr>"
    using i assms(6) by simp
  have f: "filter (\<lambda>ev. ev \<noteq> PX4_ERR ''sample timeout'') ?evs =
             map (\<lambda>m. ArchSample (base_address obj) (am_channel m)) xs"
    by (rule sample_events_filter)
  have t: "PX4_ERR ''sample timeout'' \<in> set ?evs"
    by (rule sample_events_timeout[OF i assms(6)])
  have p: "i < ?M \<longrightarrow>
             channel_id ?adc ! i = int (am_channel (xs ! i)) \<and> raw_data ?adc ! i = UINT32_MAX"
    using i assms(6) by (simp add: nth_append)
  from r l x f t p show ?thesis by blast
qed

theorem Run_sample_timeout_witness:
  "heap example_module 7 = Some example_obj \<and> \<not> task_should_exit example_obj
   \<and> samples example_obj =
        Some [\<lparr>am_channel = 2, am_data = 0\<rparr>, \<lparr>am_channel = 5, am_data = 0\<rparr>,
              \<lparr>am_channel = 10, am_data = 0\<rparr>]
   \<and> length [\<lparr>am_channel = 2, am_data = 0 :: uint32\<rparr>, \<lparr>am_channel = 5, am_data = 0\<rparr>,
              \<lparr>am_channel = 10 :: nat, am_data = 0\<rparr>] = channel_count example_obj
   \<and> 1 < channel_count example_obj
   \<and> px4_arch_adc_sample example_env (base_address example_obj) 5 = UINT32_MAX
   \<and> 1 < PX4_MAX_ADC_CHANNELS example_board
   \<and> (\<exists>xs' evs adc.
           Run example_board example_env 7 example_module =
             Some (example_module\<lparr>heap := (heap example_module)(7 \<mapsto> example_obj\<lparr>samples := Some xs'\<rparr>),
                     trace := trace example_module @ [PerfBegin] @ evs @ [Publish adc, PerfEnd]\<rparr>)
         \<and> xs' ! 1 = \<lparr>am_channel = 5, am_data = UINT32_MAX\<rparr>
         \<and> PX4_ERR ''sample timeout'' \<in> set evs
         \<and> channel_id adc ! 1 = 5 \<and> raw_data adc ! 1 = UINT32_MAX)"
proof -
  let ?xs = "[\<lparr>am_channel = 2, am_data = 0 :: uint32\<rparr>, \<lparr>am_channel = 5, am_data = 0\<rparr>,
              \<lparr>am_channel = 10 :: nat, am_data = 0\<rparr>]"
  have h1: "heap example_module 7 = Some example_obj"
    by (simp add: example_module_def)
  have h2: "\<not> task_should_exit example_obj"
    by (simp add: example_obj_def)
  have h3: "samples example_obj = Some ?xs"
    by (simp add: example_obj_def)
  have h4: "length ?xs = channel_count example_obj"
    by (simp add: example_obj_def)
  have h5: "1 < channel_count example_obj"
    by (simp add: example_obj_def)
  have h6: "px4_arch_adc_sample example_env (base_address example_obj) (am_channel (?xs ! 1)) = UINT32_MAX"
    by (simp add: example_env_def UINT32_MAX_def)
  have h7: "1 < PX4_MAX_ADC_CHANNELS example_board"
    by (simp add: example_board_def)
  have n: "?xs ! 1 = \<lparr>am_channel = 5, am_data = 0\<rparr>" by simp
  from Run_sample_timeout[OF h1 h2 h3 h4 h5 h6, of example_board] h7
  have "\<exists>xs' evs adc.
           Run example_board example_env 7 example_module =
             Some (example_module\<lparr>heap := (heap example_module)(7 \<mapsto> example_obj\<lparr>samples := Some xs'\<rparr>),
                     trace := trace example_module @ [PerfBegin] @ evs @ [Publish adc, PerfEnd]\<rparr>)
         \<and> xs' ! 1 = \<lparr>am_channel = 5, am_data = UINT32_MAX\<rparr>
         \<and> PX4_ERR ''sample timeout'' \<in> set evs
         \<and> channel_id adc ! 1 = 5 \<and> raw_data adc ! 1 = UINT32_MAX"
    unfolding n by (simp only: px4_adc_msg_t.simps px4_adc_msg_t.update_convs of_nat_numeral) blast
  moreover have "px4_arch_adc_sample example_env (base_address example_obj) 5 = UINT32_MAX"
    using h6 by simp
  ultimately show ?thesis using h1 h2 h3 h4 h5 h7 by blast
qed

section \<open>\<open>init\<close> and \<open>task_spawn\<close>\<close>

text \<open>
  C6. When the hardware initialisation returns a negative code, \<open>init\<close> returns that
  code, logs the failure and leaves the object as it was, its schedule included. Otherwise
  it registers the work item with \<open>kINTERVAL\<close> as both the interval and the initial
  delay and returns \<open>PX4_OK\<close>, which is 0.
\<close>

theorem init_result:
  "(px4_arch_adc_init e (base_address this) < 0 \<longrightarrow>
      init b e this =
        (this, px4_arch_adc_init e (base_address this),
         [ArchInit (base_address this), PX4_ERR ''arch adc init failed''])
    \<and> schedule (fst (init b e this)) = schedule this)
   \<and> (\<not> px4_arch_adc_init e (base_address this) < 0 \<longrightarrow>
      init b e this =
        (this\<lparr>schedule := Some (kINTERVAL b, kINTERVAL b)\<rparr>, PX4_OK, [ArchInit (base_address this)])
    \<and> PX4_OK = 0)"
  by (simp add: init_def PX4_OK_def)

theorem init_result_witness:
  "px4_arch_adc_init failing_env (base_address (example_obj\<lparr>schedule := None\<rparr>)) < 0
   \<and> init example_board failing_env (example_obj\<lparr>schedule := None\<rparr>) =
        (example_obj\<lparr>schedule := None\<rparr>, - 5, [ArchInit 1073815552, PX4_ERR ''arch adc init failed''])
   \<and> schedule (fst (init example_board failing_env (example_obj\<lparr>schedule := None\<rparr>))) = None
   \<and> \<not> px4_arch_adc_init example_env (base_address (example_obj\<lparr>schedule := None\<rparr>)) < 0
   \<and> init example_board example_env (example_obj\<lparr>schedule := None\<rparr>) =
        (example_obj\<lparr>schedule := Some (10000, 10000)\<rparr>, 0, [ArchInit 1073815552])"
proof -
  have f: "px4_arch_adc_init failing_env (base_address (example_obj\<lparr>schedule := None\<rparr>)) < 0"
    by (simp add: failing_env_def)
  have g: "\<not> px4_arch_adc_init example_env (base_address (example_obj\<lparr>schedule := None\<rparr>)) < 0"
    by (simp add: example_env_def)
  from f g
    init_result[of failing_env "example_obj\<lparr>schedule := None\<rparr>" example_board]
    init_result[of example_env "example_obj\<lparr>schedule := None\<rparr>" example_board]
  show ?thesis
    by (simp add: failing_env_def example_env_def example_obj_def example_board_def)
qed

text \<open>The constructor always returns an object, with or without its sample array.\<close>

lemma ADC_ctor_total:
  "\<exists>obj log. ADC_ctor b e base requested = Some (obj, log) \<and> base_address obj = base"
proof (cases "new_samples e")
  case None
  then show ?thesis by (simp add: ADC_ctor_def Let_def)
next
  case (Some junk)
  then show ?thesis by (simp add: ADC_ctor_eq)
qed

text \<open>
  C7. When \<open>new ADC\<close> succeeded and the hardware initialisation fails, \<open>task_spawn\<close>
  destroys the object it has just made (the destructor runs and the address is no longer
  live), clears \<open>_object\<close>, sets \<open>_task_id\<close> to -1 and returns \<open>PX4_ERROR\<close>.
\<close>

theorem task_spawn_init_failure:
  assumes "new_ADC e = Some p" and "px4_arch_adc_init e (SYSTEM_ADC_BASE b) < 0"
  shows "\<exists>log. task_spawn b e s =
           Some (s\<lparr>heap := (heap s)(p := None), object := None, task_id := - 1,
                   trace := trace s @ log @
                     [ArchInit (SYSTEM_ADC_BASE b), PX4_ERR ''arch adc init failed'',
                      ScheduleClear, PerfFree, ArchUninit (SYSTEM_ADC_BASE b)]\<rparr>,
                 PX4_ERROR)
         \<and> PX4_ERROR \<noteq> PX4_OK"
proof -
  obtain obj log where c: "ADC_ctor b e (SYSTEM_ADC_BASE b) (ADC_CHANNELS b) = Some (obj, log)"
    and a: "base_address obj = SYSTEM_ADC_BASE b"
    using ADC_ctor_total by blast
  have i: "init b e obj = (obj, px4_arch_adc_init e (SYSTEM_ADC_BASE b),
             [ArchInit (SYSTEM_ADC_BASE b), PX4_ERR ''arch adc init failed''])"
    using assms(2) a by (simp add: init_def)
  have n: "px4_arch_adc_init e (SYSTEM_ADC_BASE b) \<noteq> PX4_OK"
    using assms(2) by (simp add: PX4_OK_def)
  have "task_spawn b e s =
           Some (s\<lparr>heap := (heap s)(p := None), object := None, task_id := - 1,
                   trace := trace s @ log @
                     [ArchInit (SYSTEM_ADC_BASE b), PX4_ERR ''arch adc init failed'',
                      ScheduleClear, PerfFree, ArchUninit (SYSTEM_ADC_BASE b)]\<rparr>,
                 PX4_ERROR)"
    using n a by (simp add: task_spawn_def assms(1) c i delete_ADC_def ADC_dtor_def)
  moreover have "PX4_ERROR \<noteq> PX4_OK" by (simp add: PX4_ERROR_def PX4_OK_def)
  ultimately show ?thesis by blast
qed

theorem task_spawn_init_failure_witness:
  "new_ADC failing_env = Some 7 \<and> px4_arch_adc_init failing_env (SYSTEM_ADC_BASE example_board) < 0
   \<and> (\<exists>log. task_spawn example_board failing_env module_init =
           Some (module_init\<lparr>heap := (heap module_init)(7 := None), object := None, task_id := - 1,
                   trace := trace module_init @ log @
                     [ArchInit 1073815552, PX4_ERR ''arch adc init failed'',
                      ScheduleClear, PerfFree, ArchUninit 1073815552]\<rparr>,
                 PX4_ERROR))"
proof -
  have h1: "new_ADC failing_env = Some 7"
    by (simp add: failing_env_def example_env_def)
  have h2: "px4_arch_adc_init failing_env (SYSTEM_ADC_BASE example_board) < 0"
    by (simp add: failing_env_def)
  have b: "SYSTEM_ADC_BASE example_board = 1073815552" by (simp add: example_board_def)
  from task_spawn_init_failure[OF h1 h2, of module_init] h1 h2 show ?thesis
    unfolding b by blast
qed

section \<open>Starting twice\<close>

lemma task_spawn_ok_running:
  assumes "task_spawn b e s = Some (s1, PX4_OK)"
  shows "is_running s1"
proof (cases "new_ADC e")
  case None
  with assms show ?thesis by (simp add: task_spawn_def PX4_ERROR_def PX4_OK_def)
next
  case (Some p)
  obtain obj log where c: "ADC_ctor b e (SYSTEM_ADC_BASE b) (ADC_CHANNELS b) = Some (obj, log)"
    using ADC_ctor_total by blast
  obtain obj' ret evs where i: "init b e obj = (obj', ret, evs)"
    by (cases "init b e obj") auto
  show ?thesis
  proof (cases "ret = PX4_OK")
    case True
    with assms Some c i show ?thesis
      by (auto simp: task_spawn_def is_running_def)
  next
    case False
    with assms Some c i show ?thesis
      by (auto simp: task_spawn_def delete_ADC_def PX4_ERROR_def PX4_OK_def)
  qed
qed

lemma start_example: "start_command example_board example_env module_init = Some (example_module, PX4_OK)"
  by (simp add: start_command_def is_running_def spawn_example) (simp add: module_init_def)

text \<open>
  \<open>task_spawn\<close> itself has no guard: called on the running example module it makes a
  second object and stores it over the first, which stays live. What keeps \<open>start\<close>
  from doing so is the dispatch in front of it.
\<close>

lemma task_spawn_replaces:
  "task_spawn example_board (example_env\<lparr>new_ADC := Some 8\<rparr>) example_module =
     Some (example_module\<lparr>heap := [7 \<mapsto> example_obj, 8 \<mapsto> example_obj], object := Some 8,
             trace := [ArchInit 1073815552, ArchInit 1073815552]\<rparr>, PX4_OK)"
proof -
  have c: "ADC_ctor example_board (example_env\<lparr>new_ADC := Some 8\<rparr>) (SYSTEM_ADC_BASE example_board) (ADC_CHANNELS example_board) =
     Some (example_obj\<lparr>schedule := None\<rparr>, [])"
    by code_simp
  have i: "init example_board (example_env\<lparr>new_ADC := Some 8\<rparr>) (example_obj\<lparr>schedule := None\<rparr>) = (example_obj, PX4_OK, [ArchInit 1073815552])"
    by (simp add: init_def example_env_def example_board_def example_obj_def)
  show ?thesis
    by (simp add: task_spawn_def c i example_module_def)
       (simp add: example_board_def)
qed

text \<open>
  C4. \<open>start\<close> on a running module is an error that changes nothing: no object is made
  and the stored instance is not replaced. In particular a \<open>start\<close> that follows a
  successful \<open>start\<close> is such an error, whatever the allocator would have answered.
\<close>

theorem start_when_running:
  "(is_running s \<longrightarrow> start_command b e s = Some (s, PX4_ERROR))
   \<and> (start_command b e s = Some (s1, PX4_OK) \<longrightarrow>
        is_running s1 \<and> start_command b e' s1 = Some (s1, PX4_ERROR))
   \<and> PX4_ERROR \<noteq> PX4_OK"
proof -
  have 1: "is_running s \<longrightarrow> start_command b e s = Some (s, PX4_ERROR)"
    by (simp add: start_command_def)
  have 3: "PX4_ERROR \<noteq> PX4_OK" by (simp add: PX4_ERROR_def PX4_OK_def)
  have 2: "start_command b e s = Some (s1, PX4_OK) \<longrightarrow>
        is_running s1 \<and> start_command b e' s1 = Some (s1, PX4_ERROR)"
  proof
    assume a: "start_command b e s = Some (s1, PX4_OK)"
    have "is_running s1"
    proof (cases "is_running s")
      case True
      with a 3 show ?thesis by (simp add: start_command_def)
    next
      case False
      with a have "task_spawn b e s = Some (s1, PX4_OK)" by (simp add: start_command_def)
      then show ?thesis by (rule task_spawn_ok_running)
    qed
    then show "is_running s1 \<and> start_command b e' s1 = Some (s1, PX4_ERROR)"
      by (simp add: start_command_def)
  qed
  from 1 2 3 show ?thesis by blast
qed

theorem start_when_running_witness:
  "start_command example_board example_env module_init = Some (example_module, PX4_OK)
   \<and> is_running example_module
   \<and> start_command example_board (example_env\<lparr>new_ADC := Some 8\<rparr>) example_module =
       Some (example_module, PX4_ERROR)"
  using start_example
    start_when_running[of module_init example_board example_env example_module "example_env\<lparr>new_ADC := Some 8\<rparr>"]
  by blast

section \<open>Unknown commands\<close>

text \<open>
  C3 as stated fails: for a verb other than \<open>test\<close>, \<open>custom_command\<close> returns what
  \<open>print_usage\<close> returns, and that is 0.
\<close>

theorem custom_command_unknown_counterexample:
  "custom_command example_board example_env [''calibrate''] example_module =
     Some (example_module
             \<lparr>trace := [ArchInit 1073815552, PX4_WARN ''unknown command'',
                        PRINT_MODULE_DESCRIPTION, PRINT_MODULE_USAGE_NAME ''adc'' ''driver'',
                        PRINT_MODULE_USAGE_COMMAND ''start'', PRINT_MODULE_USAGE_COMMAND ''test'',
                        PRINT_MODULE_USAGE_DEFAULT_COMMANDS]\<rparr>,
           0)"
  by (simp add: custom_command_def print_usage_def example_module_def)

text \<open>
  C3, amended. For every verb other than \<open>test\<close>, \<open>custom_command\<close> warns
  "unknown command", prints the usage and returns 0, the result of \<open>print_usage\<close>; the
  objects, \<open>_object\<close> and \<open>_task_id\<close> are as before.
\<close>

theorem custom_command_unknown:
  assumes "verb \<noteq> ''test''"
  shows "custom_command b e (verb # args) s =
           Some (s\<lparr>trace := trace s @
                     [PX4_WARN ''unknown command'',
                      PRINT_MODULE_DESCRIPTION, PRINT_MODULE_USAGE_NAME ''adc'' ''driver'',
                      PRINT_MODULE_USAGE_COMMAND ''start'', PRINT_MODULE_USAGE_COMMAND ''test'',
                      PRINT_MODULE_USAGE_DEFAULT_COMMANDS]\<rparr>,
                 0)"
  using assms by (simp add: custom_command_def print_usage_def)

theorem custom_command_unknown_witness:
  "''status'' \<noteq> ''test''
   \<and> custom_command example_board example_env [''status'', ''-v''] example_module =
       Some (example_module\<lparr>trace := trace example_module @
                     [PX4_WARN ''unknown command'',
                      PRINT_MODULE_DESCRIPTION, PRINT_MODULE_USAGE_NAME ''adc'' ''driver'',
                      PRINT_MODULE_USAGE_COMMAND ''start'', PRINT_MODULE_USAGE_COMMAND ''test'',
                      PRINT_MODULE_USAGE_DEFAULT_COMMANDS]\<rparr>,
                 0)"
proof -
  have h: "''status'' \<noteq> ''test''" by simp
  from h custom_command_unknown[OF h, of example_board example_env "[''-v'']" example_module]
  show ?thesis by blast
qed

section \<open>The self-test\<close>

lemma print_channels_no_failed:
  "filter ((=) INFO_test_failed) (print_channels b adc) = []"
  by (simp add: print_channels_def filter_concat concat_eq_Nil_conv comp_def)

lemma print_channels_no_sleep:
  "filter ((=) (Usleep n)) (print_channels b adc) = []"
  by (simp add: print_channels_def filter_concat concat_eq_Nil_conv comp_def)

lemma test_fold_failed:
  "length (filter ((=) INFO_test_failed) (snd (fold (test_step b e) ls (adc, evs)))) =
   length (filter ((=) INFO_test_failed) evs) + length (filter (\<lambda>l. update e (Suc l) = None) ls)"
proof (induction ls arbitrary: adc evs)
  case Nil
  then show ?case by simp
next
  case (Cons l ls)
  show ?case
  proof (cases "update e (Suc l)")
    case None
    then have "test_step b e l (adc, evs) =
                 (adc, (evs @ print_channels b adc @ [INFO_newline, Usleep 500000]) @ [INFO_test_failed])"
      by (simp add: test_step_def)
    then show ?thesis using None by (simp add: Cons.IH print_channels_no_failed)
  next
    case (Some adc')
    then have "test_step b e l (adc, evs) =
                 (adc', evs @ print_channels b adc @ [INFO_newline, Usleep 500000])"
      by (simp add: test_step_def)
    then show ?thesis using Some by (simp add: Cons.IH print_channels_no_failed)
  qed
qed

lemma test_fold_sleeps:
  "length (filter ((=) (Usleep 500000)) (snd (fold (test_step b e) ls (adc, evs)))) =
   length (filter ((=) (Usleep 500000)) evs) + length ls"
proof (induction ls arbitrary: adc evs)
  case Nil
  then show ?case by simp
next
  case (Cons l ls)
  show ?case
  proof (cases "update e (Suc l)")
    case None
    then have "test_step b e l (adc, evs) =
                 (adc, (evs @ print_channels b adc @ [INFO_newline, Usleep 500000]) @ [INFO_test_failed])"
      by (simp add: test_step_def)
    then show ?thesis by (simp add: Cons.IH print_channels_no_sleep)
  next
    case (Some adc')
    then have "test_step b e l (adc, evs) =
                 (adc', evs @ print_channels b adc @ [INFO_newline, Usleep 500000])"
      by (simp add: test_step_def)
    then show ?thesis by (simp add: Cons.IH print_channels_no_sleep)
  qed
qed

lemma test_Some:
  assumes "update e 0 = Some adc"
  shows "test b e =
    (0, snd (fold (test_step b e) [0..<20]
               (adc, [Usleep 20000, INFO_device_id (device_id adc),
                      INFO_resolution (resolution adc), INFO_v_ref (v_ref adc)]))
        @ [INFO_test_successful])"
  using assms by (simp add: test_def split_beta)

text \<open>
  C8. \<open>test\<close> returns 0 exactly when the first poll brought a report, and 1 without
  one. When it did, the loop always runs its 20 iterations (20 sleeps of 500 ms), flags
  one failure for each of the 20 later polls that brought nothing, and still ends with
  "ADC test successful" and the result 0.
\<close>

theorem test_result:
  "(fst (test b e) = 0 \<longleftrightarrow> update e 0 \<noteq> None)
   \<and> (update e 0 = None \<longrightarrow> test b e = (1, [Usleep 20000]))
   \<and> (update e 0 \<noteq> None \<longrightarrow>
        fst (test b e) = 0
      \<and> length (filter ((=) (Usleep 500000)) (snd (test b e))) = 20
      \<and> length (filter ((=) INFO_test_failed) (snd (test b e))) =
          card {l. l < 20 \<and> update e (Suc l) = None}
      \<and> last (snd (test b e)) = INFO_test_successful)"
proof (cases "update e 0")
  case None
  then show ?thesis by (simp add: test_def)
next
  case (Some adc)
  have c: "card {l. l < 20 \<and> update e (Suc l) = None} =
           length (filter (\<lambda>l. update e (Suc l) = None) [0..<20])"
    by (rule card_filter_upt)
  show ?thesis
    using Some
    by (simp add: test_Some[OF Some] test_fold_sleeps test_fold_failed c)
qed

theorem test_result_witness:
  "update polling_env 0 \<noteq> None
   \<and> fst (test example_board polling_env) = 0
   \<and> length (filter ((=) (Usleep 500000)) (snd (test example_board polling_env))) = 20
   \<and> length (filter ((=) INFO_test_failed) (snd (test example_board polling_env))) = 2
   \<and> last (snd (test example_board polling_env)) = INFO_test_successful
   \<and> update example_env 0 = None
   \<and> test example_board example_env = (1, [Usleep 20000])"
proof -
  have h1: "update polling_env 0 \<noteq> None"
    by (simp add: polling_env_def)
  have h2: "update example_env 0 = None"
    by (simp add: example_env_def)
  have "length (filter (\<lambda>l. update polling_env (Suc l) = None) [0..<20]) = 2"
    by code_simp
  then have c: "card {l. l < 20 \<and> update polling_env (Suc l) = None} = 2"
    by (simp only: card_filter_upt)
  from h1 h2 test_result[of example_board polling_env] test_result[of example_board example_env]
  show ?thesis
    unfolding c by blast
qed

section \<open>Shutdown\<close>

lemma ticks_dead:
  assumes "heap s this = None"
  shows "ticks b es this s = Some s"
  using assms by (induction es) (simp_all add: tick_def)

text \<open>
  C9. When \<open>Run\<close> is invoked on the stored instance after its exit was requested, it
  does the teardown and nothing else: the result is that of \<open>exit_and_cleanup\<close> on the
  state as it was, so no channel is read, the sample array is not written before the
  object goes, and nothing is published. The object is then no longer live, and any
  number of later ticks leave the state as it is: nothing is sampled or published again.
\<close>

theorem Run_should_exit:
  assumes "heap s this = Some obj" and "task_should_exit obj" and "object s = Some this"
  shows "Run b e this s = exit_and_cleanup s
       \<and> Run b e this s =
           Some (s\<lparr>heap := (heap s)(this := None), object := None, task_id := - 1,
                   trace := trace s @ [ScheduleClear, PerfFree, ArchUninit (base_address obj)]\<rparr>)
       \<and> ticks b es this
           (s\<lparr>heap := (heap s)(this := None), object := None, task_id := - 1,
              trace := trace s @ [ScheduleClear, PerfFree, ArchUninit (base_address obj)]\<rparr>) =
           Some (s\<lparr>heap := (heap s)(this := None), object := None, task_id := - 1,
                   trace := trace s @ [ScheduleClear, PerfFree, ArchUninit (base_address obj)]\<rparr>)"
proof -
  let ?s' = "s\<lparr>heap := (heap s)(this := None), object := None, task_id := - 1,
               trace := trace s @ [ScheduleClear, PerfFree, ArchUninit (base_address obj)]\<rparr>"
  have 1: "Run b e this s = exit_and_cleanup s"
    using assms(1,2) by (simp add: Run_def)
  have 2: "exit_and_cleanup s = Some ?s'"
    using assms(1,3) by (simp add: exit_and_cleanup_def delete_ADC_def ADC_dtor_def)
  have "heap ?s' this = None" by simp
  then have 3: "ticks b es this ?s' = Some ?s'" by (rule ticks_dead)
  from 1 2 3 show ?thesis by simp
qed

theorem Run_should_exit_witness:
  "heap stopping_module 7 = Some (example_obj\<lparr>task_should_exit := True\<rparr>)
   \<and> task_should_exit (example_obj\<lparr>task_should_exit := True\<rparr>)
   \<and> object stopping_module = Some 7
   \<and> Run example_board example_env 7 stopping_module =
           Some (stopping_module\<lparr>heap := Map.empty, object := None, task_id := - 1,
                   trace := [ArchInit 1073815552, ScheduleClear, PerfFree, ArchUninit 1073815552]\<rparr>)
   \<and> ticks example_board [example_env, crowded_env, example_env] 7
           (stopping_module\<lparr>heap := Map.empty, object := None, task_id := - 1,
                   trace := [ArchInit 1073815552, ScheduleClear, PerfFree, ArchUninit 1073815552]\<rparr>) =
           Some (stopping_module\<lparr>heap := Map.empty, object := None, task_id := - 1,
                   trace := [ArchInit 1073815552, ScheduleClear, PerfFree, ArchUninit 1073815552]\<rparr>)"
proof -
  have h1: "heap stopping_module 7 = Some (example_obj\<lparr>task_should_exit := True\<rparr>)"
    by (simp add: stopping_module_def)
  have h2: "task_should_exit (example_obj\<lparr>task_should_exit := True\<rparr>)"
    by simp
  have h3: "object stopping_module = Some 7"
    by (simp add: stopping_module_def example_module_def)
  have s: "stopping_module\<lparr>heap := (heap stopping_module)(7 := None), object := None, task_id := - 1,
                   trace := trace stopping_module @ [ScheduleClear, PerfFree,
                     ArchUninit (base_address (example_obj\<lparr>task_should_exit := True\<rparr>))]\<rparr> =
           stopping_module\<lparr>heap := Map.empty, object := None, task_id := - 1,
                   trace := [ArchInit 1073815552, ScheduleClear, PerfFree, ArchUninit 1073815552]\<rparr>"
    by (simp add: stopping_module_def example_module_def example_obj_def)
  from h1 h2 h3
    Run_should_exit[OF h1 h2 h3, of example_board example_env "[example_env, crowded_env, example_env]"]
  show ?thesis unfolding s by blast
qed

end
